theory Spec2Isabelle
  imports Main "HOL-Library.Word"
begin

unbundle bit_operations_syntax

section \<open>The MCA UART driver (drivers/tty/serial/mca-cc6ul-uart.c)\<close>

text \<open>
  The driver operates a UART whose registers sit behind a regmap (I2C) bus. Every register
  access is a bus transaction that may fail. The embedding below follows the C source
  function by function. What the driver does to the outside world (bus transactions, log
  lines, work scheduling, calls into the tty layer, mutex operations) is recorded, in
  order, in a trace; what the outside world answers (the result of each bus transaction,
  the room left in the tty flip buffer, the answer of the sysrq filter) is part of the
  state and is read by the model where the C code reads it.
\<close>

subsection \<open>Machine types and constants\<close>

type_synonym u8 = "8 word"
type_synonym u32 = "32 word"

text \<open>Register addresses are opaque names (linux/mfd/mca-cc6ul/registers.h).\<close>

datatype reg =
    MCA_REG_UART_CFG0 | MCA_REG_UART_CFG1 | MCA_REG_UART_IER | MCA_REG_UART_IIR
  | MCA_REG_UART_LSR | MCA_REG_UART_MSR | MCA_REG_UART_BAUD | MCA_REG_UART_TXLVL
  | MCA_REG_UART_RXLVL | MCA_REG_UART_THR | MCA_REG_UART_RHR | MCA_REG_UART_RX_ERRORS

text \<open>
  The bit masks and codes of the MCA register header and of the serial core and termios
  headers are declared outside the driver file. Each one is a name here, and every
  function of the model takes the header \<open>K\<close>, which gives each name its value.
\<close>

datatype mca_const =
    MCA_REG_UART_CFG0_CTX | MCA_REG_UART_CFG0_CRX
  | MCA_REG_UART_CFG1_TWO_STOPBITS | MCA_REG_UART_CFG1_PARITY_EN
  | MCA_REG_UART_CFG1_PARITY_ODD | MCA_REG_UART_CFG1_CTS_EN | MCA_REG_UART_CFG1_RTS_EN
  | MCA_REG_UART_IER_THR | MCA_REG_UART_IER_RHR
  | MCA_REG_UART_IIR_THR | MCA_REG_UART_IIR_RHR | MCA_REG_UART_IIR_RLSE
  | MCA_REG_UART_MSR_RTS
  | MCA_REG_UART_LSR_FRAMING_ERROR | MCA_REG_UART_LSR_PARITY_ERROR
  | MCA_REG_UART_LSR_FIFO_OR_ERROR | MCA_REG_UART_LSR_BREAK
  | MCA_REG_UART_LSR_HW_OR_ERROR | MCA_REG_UART_LSR_NO_ERROR
  | MCA_REG_UART_BAUD_1200 | MCA_REG_UART_BAUD_2400 | MCA_REG_UART_BAUD_4800
  | MCA_REG_UART_BAUD_9600 | MCA_REG_UART_BAUD_19200 | MCA_REG_UART_BAUD_38400
  | MCA_REG_UART_BAUD_57600 | MCA_REG_UART_BAUD_115200 | MCA_REG_UART_BAUD_230400

datatype tty_const =
    CRTSCTS | IXON | IXOFF | IXANY | CMSPAR | CSIZE | CS8 | CSTOPB | PARENB | PARODD
  | UPSTAT_AUTOCTS | UPSTAT_AUTORTS | TIOCSER_TEMT | UART_XMIT_SIZE | WAKEUP_CHARS

record hdr =
  mca :: "mca_const \<Rightarrow> u32"
  ttyc :: "tty_const \<Rightarrow> u32"

definition MCA_UART_DEFAULT_BRATE :: u32 where
  "MCA_UART_DEFAULT_BRATE = 9600"

definition MCA_UART_DEFAULT_BAUD_REG :: "hdr \<Rightarrow> u32" where
  "MCA_UART_DEFAULT_BAUD_REG K = mca K MCA_REG_UART_BAUD_9600"

definition MCA_UART_RX_FIFO_SIZE :: u32 where
  "MCA_UART_RX_FIFO_SIZE = 128"

definition MCA_UART_TX_FIFO_SIZE :: u32 where
  "MCA_UART_TX_FIFO_SIZE = 128"

definition MCA_UART_HAS_RTS :: u32 where
  "MCA_UART_HAS_RTS = 1"

definition MCA_UART_HAS_CTS :: u32 where
  "MCA_UART_HAS_CTS = 2"

definition WORK_STOP_RX :: u32 where
  "WORK_STOP_RX = 1"

definition WORK_STOP_TX :: u32 where
  "WORK_STOP_TX = 2"

definition WORK_SET_RTS :: u32 where
  "WORK_SET_RTS = 4"

definition WORK_CLEAR_RTS :: u32 where
  "WORK_CLEAR_RTS = 8"

subsection \<open>Events, bus replies and the driver state\<close>

datatype loglevel = Dbg | Warn | Err

datatype work = TX_WORK | DELAYED_WORK

datatype tty_flag = TTY_NORMAL | TTY_BREAK | TTY_FRAME | TTY_PARITY | TTY_OVERRUN

text \<open>
  One event for each thing the driver does that is visible outside it. A log event keeps
  the level and the format string (without the final newline and without the arguments).
\<close>

datatype event =
    MutexLock
  | MutexUnlock
  | BusRead reg
  | BusBulkRead reg u32
  | BusWrite reg u32
  | BusBulkWrite reg "u8 list"
  | BusUpdateBits reg u32 u32
  | Log loglevel string
  | ScheduleWork work
  | GetBaudRate u32
  | UpdateTimeout u32 u32
  | SysrqChar u8
  | FlipInsert u8 tty_flag
  | FlipPush
  | WriteWakeup

text \<open>
  The answer of the bus to one transaction: the return code (0 for success, a negative
  errno otherwise), the value a register read yields and the bytes a bulk read yields.
\<close>

record reply =
  r_ret :: int
  r_val :: u32
  r_data :: "nat \<Rightarrow> u8"

record uart_icount =
  rx :: u32
  tx :: u32
  frame :: u32
  overrun :: u32
  parity :: u32
  brk :: u32

record circ_buf =
  buf :: "u8 list"
  head :: u32
  tail :: u32

text \<open>
  The fields of \<open>struct mca_uart\<close> and of its \<open>struct uart_port\<close> that the engine
  reads or writes, followed by the environment. \<open>mutex\<close> is True while the mutex is held;
  \<open>tx_work\<close> and \<open>delayed_work\<close> are the pending bits of the two work items; \<open>tty\<close> says
  that \<open>port->state->port.tty\<close> is not NULL and \<open>tx_stopped\<close> is what
  \<open>uart_tx_stopped(port)\<close> returns. The environment: \<open>bus\<close> gives the reply to the
  \<open>k\<close>-th bus transaction and \<open>bus_seq\<close> counts the transactions made so far;
  \<open>sysrq\<close> is the answer of \<open>uart_handle_sysrq_char\<close>; \<open>flip\<close> holds the characters
  the tty flip buffer accepted and \<open>flip_room\<close> how many more it accepts; \<open>fault\<close>
  is set when a bulk read stored more bytes than the stack array it was given can hold:
  the C code has written past the end of \<open>rx_buf\<close> or \<open>error_buf\<close>, what follows is
  not defined by the language, and the model ends the run there.
\<close>

record mca_uart =
  mutex :: bool
  pending_work :: u32
  tx_work :: bool
  delayed_work :: bool
  has_rtscts :: u32
  icount :: uart_icount
  status :: u32
  xmit :: circ_buf
  tty :: bool
  tx_stopped :: bool
  bus :: "nat \<Rightarrow> reply"
  bus_seq :: nat
  sysrq :: "u8 \<Rightarrow> bool"
  flip :: "(u8 \<times> tty_flag) list"
  flip_room :: nat
  fault :: bool
  trace :: "event list"

subsection \<open>Kernel services the driver calls\<close>

definition emit :: "event \<Rightarrow> mca_uart \<Rightarrow> mca_uart" where
  "emit e s = s\<lparr>trace := trace s @ [e]\<rparr>"

definition dev_dbg :: "string \<Rightarrow> mca_uart \<Rightarrow> mca_uart" where
  "dev_dbg m s = emit (Log Dbg m) s"

definition dev_warn :: "string \<Rightarrow> mca_uart \<Rightarrow> mca_uart" where
  "dev_warn m s = emit (Log Warn m) s"

definition dev_err :: "string \<Rightarrow> mca_uart \<Rightarrow> mca_uart" where
  "dev_err m s = emit (Log Err m) s"

text \<open>The statement \<open>if (ret) dev_err(...)\<close>, where the function goes on after it.\<close>

definition log_if_failed :: "int \<Rightarrow> string \<Rightarrow> mca_uart \<Rightarrow> mca_uart" where
  "log_if_failed ret m s = (if ret \<noteq> 0 then dev_err m s else s)"

text \<open>
  \<open>mutex_lock\<close> on a mutex that is held does not return in a sequential run: the model
  gives \<open>None\<close> there.
\<close>

definition mutex_lock :: "mca_uart \<Rightarrow> mca_uart option" where
  "mutex_lock s = (if mutex s then None else Some (emit MutexLock (s\<lparr>mutex := True\<rparr>)))"

definition mutex_unlock :: "mca_uart \<Rightarrow> mca_uart" where
  "mutex_unlock s = emit MutexUnlock (s\<lparr>mutex := False\<rparr>)"

definition work_pending :: "work \<Rightarrow> mca_uart \<Rightarrow> bool" where
  "work_pending w s = (case w of TX_WORK \<Rightarrow> tx_work s | DELAYED_WORK \<Rightarrow> delayed_work s)"

text \<open>\<open>schedule_work\<close> queues the item unless its pending bit is already set.\<close>

definition schedule_work :: "work \<Rightarrow> mca_uart \<Rightarrow> mca_uart" where
  "schedule_work w s =
     (if work_pending w s then s
      else emit (ScheduleWork w)
             (case w of TX_WORK \<Rightarrow> s\<lparr>tx_work := True\<rparr>
                      | DELAYED_WORK \<Rightarrow> s\<lparr>delayed_work := True\<rparr>))"

text \<open>One bus transaction: record it, take the next reply.\<close>

definition bus_call :: "event \<Rightarrow> mca_uart \<Rightarrow> reply \<times> mca_uart" where
  "bus_call e s = (bus s (bus_seq s), emit e (s\<lparr>bus_seq := Suc (bus_seq s)\<rparr>))"

definition regmap_read :: "reg \<Rightarrow> mca_uart \<Rightarrow> (int \<times> u32) \<times> mca_uart" where
  "regmap_read r s = (let (a, s') = bus_call (BusRead r) s in ((r_ret a, r_val a), s'))"

definition regmap_write :: "reg \<Rightarrow> u32 \<Rightarrow> mca_uart \<Rightarrow> int \<times> mca_uart" where
  "regmap_write r v s = (let (a, s') = bus_call (BusWrite r v) s in (r_ret a, s'))"

definition regmap_update_bits :: "reg \<Rightarrow> u32 \<Rightarrow> u32 \<Rightarrow> mca_uart \<Rightarrow> int \<times> mca_uart" where
  "regmap_update_bits r m v s =
     (let (a, s') = bus_call (BusUpdateBits r m v) s in (r_ret a, s'))"

definition regmap_bulk_write :: "reg \<Rightarrow> u8 list \<Rightarrow> mca_uart \<Rightarrow> int \<times> mca_uart" where
  "regmap_bulk_write r bs s = (let (a, s') = bus_call (BusBulkWrite r bs) s in (r_ret a, s'))"

text \<open>
  A bulk read of \<open>n\<close> bytes. A failed transaction stores nothing in the caller's buffer;
  a successful one stores \<open>n\<close> bytes there, whatever the size of the buffer: the caller
  of the model checks the size of its array (see \<open>fault\<close>).
\<close>

definition regmap_bulk_read :: "reg \<Rightarrow> u32 \<Rightarrow> mca_uart \<Rightarrow> (int \<times> u8 list) \<times> mca_uart" where
  "regmap_bulk_read r n s =
     (let (a, s') = bus_call (BusBulkRead r n) s in
      if r_ret a \<noteq> 0 then ((r_ret a, []), s')
      else ((0, map (r_data a) [0..<unat n]), s'))"

subsection \<open>Port operations\<close>

definition mca_uart_stop_tx :: "mca_uart \<Rightarrow> mca_uart" where
  "mca_uart_stop_tx s0 =
     (let s = dev_dbg ''<mca_uart_stop_tx>'' s0;
          s = s\<lparr>pending_work := pending_work s OR WORK_STOP_TX\<rparr>
      in if \<not> work_pending DELAYED_WORK s then schedule_work DELAYED_WORK s else s)"

definition mca_uart_stop_rx :: "mca_uart \<Rightarrow> mca_uart" where
  "mca_uart_stop_rx s0 =
     (let s = dev_dbg ''<mca_uart_stop_rx>'' s0;
          s = s\<lparr>pending_work := pending_work s OR WORK_STOP_RX\<rparr>
      in if \<not> work_pending DELAYED_WORK s then schedule_work DELAYED_WORK s else s)"

definition mca_uart_start_tx :: "mca_uart \<Rightarrow> mca_uart" where
  "mca_uart_start_tx s0 =
     (let s = dev_dbg ''<mca_uart_start_tx>'' s0
      in if \<not> work_pending TX_WORK s then schedule_work TX_WORK s else s)"

definition mca_uart_tx_empty :: "hdr \<Rightarrow> mca_uart \<Rightarrow> u32 \<times> mca_uart" where
  "mca_uart_tx_empty K s0 =
     (let s = dev_dbg ''<mca_uart_tx_empty>'' s0;
          ((ret, txlvl), s) = regmap_read MCA_REG_UART_TXLVL s
      in if ret \<noteq> 0 then
           (ttyc K TIOCSER_TEMT, dev_err ''Failed to read MCA_REG_UART_TXLVL'' s)
         else
           (if txlvl = MCA_UART_TX_FIFO_SIZE then ttyc K TIOCSER_TEMT else 0, s))"


record ktermios =
  c_iflag :: u32
  c_cflag :: u32

text \<open>The \<open>switch (baudrate)\<close> of \<open>mca_uart_set_termios\<close>, with its default branch.\<close>

definition baud_switch :: "hdr \<Rightarrow> u32 \<Rightarrow> mca_uart \<Rightarrow> u32 \<times> mca_uart" where
  "baud_switch K baudrate s =
     (if baudrate = 1200 then (mca K MCA_REG_UART_BAUD_1200, s)
      else if baudrate = 2400 then (mca K MCA_REG_UART_BAUD_2400, s)
      else if baudrate = 4800 then (mca K MCA_REG_UART_BAUD_4800, s)
      else if baudrate = 9600 then (mca K MCA_REG_UART_BAUD_9600, s)
      else if baudrate = 19200 then (mca K MCA_REG_UART_BAUD_19200, s)
      else if baudrate = 38400 then (mca K MCA_REG_UART_BAUD_38400, s)
      else if baudrate = 57600 then (mca K MCA_REG_UART_BAUD_57600, s)
      else if baudrate = 115200 then (mca K MCA_REG_UART_BAUD_115200, s)
      else if baudrate = 230400 then (mca K MCA_REG_UART_BAUD_230400, s)
      else (MCA_UART_DEFAULT_BAUD_REG K,
            dev_warn ''Baud rate %d not supported, using default %d'' s))"

text \<open>
  The first part of \<open>mca_uart_set_termios\<close>: it masks the termios flags the port does
  not support and computes the value of the configuration register \<open>CFG1\<close> and the new
  \<open>port->status\<close>. The arguments \<open>rtscts\<close> and \<open>upstat\<close> are the fields \<open>has_rtscts\<close> and
  \<open>port->status\<close>; the result is the termios, \<open>cfg1\<close> and the status.
\<close>

definition set_termios_flags :: "hdr \<Rightarrow> u32 \<Rightarrow> ktermios \<Rightarrow> u32 \<Rightarrow> ktermios \<times> u32 \<times> u32" where
  "set_termios_flags K rtscts termios upstat =
     (let t = (if rtscts = 0
               then termios\<lparr>c_cflag := c_cflag termios AND NOT (ttyc K CRTSCTS)\<rparr>
               else termios);
          t = t\<lparr>c_iflag := c_iflag t AND
                 NOT (ttyc K IXON OR ttyc K IXOFF OR ttyc K IXANY OR ttyc K CMSPAR
                      OR ttyc K CSIZE)\<rparr>;
          t = t\<lparr>c_cflag := c_cflag t OR ttyc K CS8\<rparr>;
          cfg1 = 0;
          cfg1 = (if c_cflag t AND ttyc K CSTOPB \<noteq> 0
                  then cfg1 OR mca K MCA_REG_UART_CFG1_TWO_STOPBITS else cfg1);
          cfg1 = (if c_cflag t AND ttyc K PARENB \<noteq> 0
                  then cfg1 OR mca K MCA_REG_UART_CFG1_PARITY_EN else cfg1);
          cfg1 = (if c_cflag t AND ttyc K PARODD \<noteq> 0
                  then cfg1 OR mca K MCA_REG_UART_CFG1_PARITY_ODD else cfg1)
      in if c_cflag t AND ttyc K CRTSCTS \<noteq> 0 then
           (let (cfg1, upstat) =
                  (if rtscts AND MCA_UART_HAS_CTS \<noteq> 0
                   then (cfg1 OR mca K MCA_REG_UART_CFG1_CTS_EN,
                         upstat OR ttyc K UPSTAT_AUTOCTS)
                   else (cfg1, upstat))
            in if rtscts AND MCA_UART_HAS_RTS \<noteq> 0
               then (t, cfg1 OR mca K MCA_REG_UART_CFG1_RTS_EN,
                     upstat OR ttyc K UPSTAT_AUTORTS)
               else (t, cfg1, upstat))
         else
           (t, cfg1, upstat AND NOT (ttyc K UPSTAT_AUTOCTS OR ttyc K UPSTAT_AUTORTS)))"

text \<open>
  \<open>uart_get_baud_rate\<close> belongs to the serial core: \<open>get_baud\<close> stands for it (with the
  port, the old termios and the limits 1200 and 230400 fixed) and gives the baud rate it
  negotiates from the termios, together with the termios it may have re-encoded. The call
  is recorded as \<open>GetBaudRate\<close>, the call of \<open>uart_update_timeout\<close> as \<open>UpdateTimeout\<close>.
\<close>

definition mca_uart_set_termios ::
  "hdr \<Rightarrow> (ktermios \<Rightarrow> u32 \<times> ktermios) \<Rightarrow> ktermios \<Rightarrow> mca_uart \<Rightarrow> ktermios \<times> mca_uart" where
  "mca_uart_set_termios K get_baud termios s0 =
     (let s = dev_dbg ''<mca_uart_set_termios>'' s0;
          (t, cfg1, st) = set_termios_flags K (has_rtscts s) termios (status s);
          s = s\<lparr>status := st\<rparr>;
          (ret, s) = regmap_write MCA_REG_UART_CFG1 cfg1 s
      in if ret \<noteq> 0 then (t, dev_err ''Failed to write MCA_REG_UART_CFG1'' s)
         else
           (let (baudrate, t) = get_baud t;
                s = emit (GetBaudRate baudrate) s;
                s = emit (UpdateTimeout (c_cflag t) baudrate) s;
                (baud_reg_val, s) = baud_switch K baudrate s;
                (ret, s) = regmap_write MCA_REG_UART_BAUD baud_reg_val s
            in (t, log_if_failed ret ''Failed to write MCA_REG_UART_BAUD'' s)))"

subsection \<open>The TX engine\<close>

text \<open>
  Modelled from the spec: the macros \<open>uart_circ_empty\<close> and \<open>uart_circ_chars_pending\<close>
  of the serial core header are not among the sources. The transmit buffer is a circular
  buffer of \<open>UART_XMIT_SIZE\<close> bytes with a head and a tail index; it is empty when the
  two are equal, and the pending count is the distance from tail to head.
\<close>

definition uart_circ_empty :: "circ_buf \<Rightarrow> bool" where
  "uart_circ_empty c = (head c = tail c)"

definition uart_circ_chars_pending :: "hdr \<Rightarrow> circ_buf \<Rightarrow> u32" where
  "uart_circ_chars_pending K c = (head c - tail c) AND (ttyc K UART_XMIT_SIZE - 1)"

definition uart_write_wakeup :: "mca_uart \<Rightarrow> mca_uart" where
  "uart_write_wakeup s = emit WriteWakeup s"

text \<open>
  The loop that copies \<open>to_send\<close> bytes from the circular buffer into the linear staging
  buffer \<open>tx_buf\<close>, moving the tail by one (modulo the buffer size) for each byte.
\<close>

function tx_copy :: "hdr \<Rightarrow> u32 \<Rightarrow> u32 \<Rightarrow> u8 list \<Rightarrow> circ_buf \<Rightarrow> u8 list \<times> circ_buf" where
  "tx_copy K i to_send tx_buf x =
     (if i < to_send then
        tx_copy K (i + 1) to_send
          (tx_buf[unat i := buf x ! unat (tail x)])
          (x\<lparr>tail := (tail x + 1) AND (ttyc K UART_XMIT_SIZE - 1)\<rparr>)
      else (tx_buf, x))"
  by pat_completeness auto
termination
proof (relation "measure (\<lambda>(K, i, to_send, tx_buf, x). unat to_send - unat i)")
  show "wf (measure (\<lambda>(K, i, to_send, tx_buf, x). unat to_send - unat i))"
    by simp
next
  fix K :: hdr and i to_send :: u32 and tx_buf :: "u8 list" and x :: circ_buf
  assume lt: "i < to_send"
  then have "unat i < unat to_send"
    by (simp add: word_less_nat_alt)
  moreover from lt have "unat (i + 1) = Suc (unat i)"
    by unat_arith
  ultimately show "((K, i + 1, to_send, tx_buf[unat i := buf x ! unat (tail x)],
                     x\<lparr>tail := (tail x + 1) AND (ttyc K UART_XMIT_SIZE - 1)\<rparr>),
                    (K, i, to_send, tx_buf, x))
                   \<in> measure (\<lambda>(K, i, to_send, tx_buf, x). unat to_send - unat i)"
    by simp
qed

declare tx_copy.simps [simp del]

definition resched_tx :: "mca_uart \<Rightarrow> mca_uart" where
  "resched_tx s = (if \<not> work_pending TX_WORK s then schedule_work TX_WORK s else s)"

text \<open>
  The body of \<open>if (likely(to_send))\<close>. The boolean of the result says that the function
  returned from inside the block.
\<close>

definition handle_tx_block :: "hdr \<Rightarrow> u32 \<Rightarrow> mca_uart \<Rightarrow> mca_uart \<times> bool" where
  "handle_tx_block K to_send s0 =
     (let ((ret, v), s) = regmap_read MCA_REG_UART_TXLVL s0;
          s = log_if_failed ret ''Failed to read MCA_REG_UART_TXLVL'' s;
          txlen = (if ret \<noteq> 0 then 0 else v)
      in if txlen = 0 then (resched_tx (dev_dbg ''TX FIFO is full'' s), True)
         else if txlen > MCA_UART_TX_FIFO_SIZE then
           (resched_tx (dev_err ''Invalid MCA_REG_UART_TXLVL value %d'' s), True)
         else
           (let to_send = (if to_send > txlen then txlen else to_send);
                s = s\<lparr>icount := (icount s)\<lparr>tx := tx (icount s) + to_send\<rparr>\<rparr>;
                (tx_buf, x) = tx_copy K 0 to_send
                                (replicate (unat MCA_UART_TX_FIFO_SIZE) 0) (xmit s);
                s = s\<lparr>xmit := x\<rparr>;
                (ret, s) = regmap_bulk_write MCA_REG_UART_THR (take (unat to_send) tx_buf) s
            in (log_if_failed ret ''Failed to write MCA_REG_UART_THR'' s, False)))"

definition mca_uart_handle_tx :: "hdr \<Rightarrow> mca_uart \<Rightarrow> mca_uart" where
  "mca_uart_handle_tx K s0 =
     (if \<not> tty s0 \<or> uart_circ_empty (xmit s0) \<or> tx_stopped s0 then s0
      else
        (let to_send = uart_circ_chars_pending K (xmit s0);
             (s, returned) = (if to_send \<noteq> 0 then handle_tx_block K to_send s0
                              else (s0, False))
         in if returned then s
            else if uart_circ_chars_pending K (xmit s) < ttyc K WAKEUP_CHARS
                 then uart_write_wakeup s
                 else s))"

subsection \<open>The RX engine\<close>

text \<open>
  \<open>uart_handle_sysrq_char\<close>: the sysrq filter of the serial core says whether it consumed
  the character. \<open>tty_insert_flip_char\<close> returns the number of characters it stored, 0
  when the flip buffer has no room. \<open>tty_flip_buffer_push\<close> hands the batch over.
\<close>

definition uart_handle_sysrq_char :: "u8 \<Rightarrow> mca_uart \<Rightarrow> bool \<times> mca_uart" where
  "uart_handle_sysrq_char ch s = (if sysrq s ch then (True, emit (SysrqChar ch) s) else (False, s))"

definition tty_insert_flip_char :: "u8 \<Rightarrow> tty_flag \<Rightarrow> mca_uart \<Rightarrow> int \<times> mca_uart" where
  "tty_insert_flip_char ch flag s =
     (if flip_room s = 0 then (0, s)
      else (1, emit (FlipInsert ch flag)
                 (s\<lparr>flip := flip s @ [(ch, flag)], flip_room := flip_room s - 1\<rparr>)))"

definition tty_flip_buffer_push :: "mca_uart \<Rightarrow> mca_uart" where
  "tty_flip_buffer_push s = emit FlipPush s"

text \<open>The \<open>switch (error_buf[i])\<close>: the flag of the byte and the counter it increments.\<close>

definition rx_error_switch :: "hdr \<Rightarrow> u8 \<Rightarrow> mca_uart \<Rightarrow> tty_flag \<times> mca_uart" where
  "rx_error_switch K e s =
     (if ucast e = mca K MCA_REG_UART_LSR_FRAMING_ERROR then
        (TTY_FRAME, s\<lparr>icount := (icount s)\<lparr>frame := frame (icount s) + 1\<rparr>\<rparr>)
      else if ucast e = mca K MCA_REG_UART_LSR_PARITY_ERROR then
        (TTY_PARITY, s\<lparr>icount := (icount s)\<lparr>parity := parity (icount s) + 1\<rparr>\<rparr>)
      else if ucast e = mca K MCA_REG_UART_LSR_FIFO_OR_ERROR then
        (TTY_OVERRUN, s\<lparr>icount := (icount s)\<lparr>overrun := overrun (icount s) + 1\<rparr>\<rparr>)
      else if ucast e = mca K MCA_REG_UART_LSR_BREAK
              \<or> ucast e = mca K MCA_REG_UART_LSR_HW_OR_ERROR then
        (TTY_BREAK, s\<lparr>icount := (icount s)\<lparr>brk := brk (icount s) + 1\<rparr>\<rparr>)
      else (TTY_NORMAL, s))"

text \<open>
  The \<open>for\<close> loop over the received bytes. \<open>flag\<close> is the local variable declared outside
  the loop. A byte the sysrq filter consumes is skipped (\<open>continue\<close>); a byte the flip
  buffer rejects is counted as an overrun and ends the loop (\<open>break\<close>).
\<close>

function rx_loop ::
  "hdr \<Rightarrow> bool \<Rightarrow> u8 list \<Rightarrow> u8 list \<Rightarrow> u32 \<Rightarrow> u32 \<Rightarrow> tty_flag \<Rightarrow> mca_uart \<Rightarrow> mca_uart" where
  "rx_loop K has_errors rx_buf error_buf i rxlen flag s =
     (if i < rxlen then
        (let ch = rx_buf ! unat i;
             (consumed, s) = uart_handle_sysrq_char ch s
         in if consumed then rx_loop K has_errors rx_buf error_buf (i + 1) rxlen flag s
            else
              (let (flag, s) = (if has_errors then rx_error_switch K (error_buf ! unat i) s
                                else (flag, s));
                   (ret, s) = tty_insert_flip_char ch flag s
               in if ret = 0 then
                    (let s = dev_err ''tty_insert_flip_char failed for %x'' s
                     in s\<lparr>icount := (icount s)\<lparr>overrun := overrun (icount s) + 1\<rparr>\<rparr>)
                  else rx_loop K has_errors rx_buf error_buf (i + 1) rxlen flag s))
      else s)"
  by pat_completeness auto
termination
proof (relation "measure (\<lambda>(K, has_errors, rx_buf, error_buf, i, rxlen, flag, s).
                            unat rxlen - unat i)", goal_cases)
  case 1
  show ?case by simp
next
  case (2 K has_errors rx_buf error_buf i rxlen flag s)
  from \<open>i < rxlen\<close> have "unat i < unat rxlen" "unat (i + 1) = Suc (unat i)"
    by unat_arith+
  then show ?case by simp
next
  case (3 K has_errors rx_buf error_buf i rxlen flag s)
  from \<open>i < rxlen\<close> have "unat i < unat rxlen" "unat (i + 1) = Suc (unat i)"
    by unat_arith+
  then show ?case by simp
qed

declare rx_loop.simps [simp del]

text \<open>
  The part of \<open>mca_uart_handle_rx\<close> between the FIFO level read and the data read: the
  line status register and the per-byte error vector. The result says whether the
  function goes on (False after a \<open>return\<close>), the new value of \<open>has_errors\<close> and the
  contents of \<open>error_buf\<close>.
\<close>

definition rx_read_errors ::
  "hdr \<Rightarrow> bool \<Rightarrow> u32 \<Rightarrow> mca_uart \<Rightarrow> (bool \<times> bool \<times> u8 list) \<times> mca_uart" where
  "rx_read_errors K has_errors rxlen s0 =
     (if has_errors then
        (let ((ret, lsr), s) = regmap_read MCA_REG_UART_LSR s0
         in if ret \<noteq> 0 then
              ((False, has_errors, []), dev_err ''Failed to read MCA_REG_UART_LSR'' s)
            else if lsr \<noteq> 0 then
              (let ((ret, error_buf), s) = regmap_bulk_read MCA_REG_UART_RX_ERRORS rxlen s
               in if ret \<noteq> 0 then
                    ((False, has_errors, []),
                     dev_err ''Failed to read MCA_REG_UART_RX_ERRORS'' s)
                  else if MCA_UART_RX_FIFO_SIZE < rxlen then
                    ((False, has_errors, error_buf), s\<lparr>fault := True\<rparr>)
                  else ((True, has_errors, error_buf), s))
            else ((True, False, []), s))
      else ((True, has_errors, []), s0))"

text \<open>
  The rest of \<open>mca_uart_handle_rx\<close>, from the bulk read of the data to the label
  \<open>exit\<close>: the read with its one retry, the receive counter, the loop and the flush.
\<close>

definition rx_read_data :: "hdr \<Rightarrow> bool \<Rightarrow> u8 list \<Rightarrow> u32 \<Rightarrow> mca_uart \<Rightarrow> mca_uart" where
  "rx_read_data K has_errors error_buf rxlen s0 =
     (let ((ret, rx_buf), s) = regmap_bulk_read MCA_REG_UART_RHR rxlen s0;
          ((ret, rx_buf), s) =
            (if ret \<noteq> 0 then
               regmap_bulk_read MCA_REG_UART_RHR rxlen
                 (dev_warn ''Failed to read MCA_REG_UART_RHR %d, retrying'' s)
             else ((ret, rx_buf), s))
      in if ret \<noteq> 0 then
           tty_flip_buffer_push (dev_err ''Failed to read MCA_REG_UART_RHR %d'' s)
         else if MCA_UART_RX_FIFO_SIZE < rxlen then s\<lparr>fault := True\<rparr>
         else
           (let s = s\<lparr>icount := (icount s)\<lparr>rx := rx (icount s) + rxlen\<rparr>\<rparr>;
                s = rx_loop K has_errors rx_buf error_buf 0 rxlen TTY_NORMAL s
            in tty_flip_buffer_push s))"

definition mca_uart_handle_rx :: "hdr \<Rightarrow> bool \<Rightarrow> mca_uart \<Rightarrow> mca_uart" where
  "mca_uart_handle_rx K has_errors s0 =
     (let s = dev_dbg ''<mca_uart_handle_rx>'' s0;
          ((ret, rxlen), s) = regmap_read MCA_REG_UART_RXLVL s
      in if ret \<noteq> 0 then dev_err ''Failed to read MCA_REG_UART_RXLVL'' s
         else if rxlen = 0 then s
         else
           (let ((go, has_errors, error_buf), s) = rx_read_errors K has_errors rxlen s
            in if \<not> go then s
               else rx_read_data K has_errors error_buf rxlen s))"

subsection \<open>The interrupt handler and the work functions\<close>

datatype irqreturn = IRQ_NONE | IRQ_HANDLED

definition mca_uart_irq_handler :: "hdr \<Rightarrow> mca_uart \<Rightarrow> (irqreturn \<times> mca_uart) option" where
  "mca_uart_irq_handler K s0 =
     (case mutex_lock (dev_dbg ''<mca_uart_irq_handler>'' s0) of
        None \<Rightarrow> None
      | Some s \<Rightarrow>
          (let ((ret, iir), s) = regmap_read MCA_REG_UART_IIR s
           in if ret \<noteq> 0 then
                Some (IRQ_HANDLED, dev_err ''Failed to read MCA_REG_UART_IIR'' s)
              else
                (let s = (if iir AND mca K MCA_REG_UART_IIR_RHR \<noteq> 0
                          then mca_uart_handle_rx K (iir AND mca K MCA_REG_UART_IIR_RLSE \<noteq> 0) s
                          else s)
                 in if fault s then Some (IRQ_HANDLED, s)
                    else
                      (let s = (if iir AND mca K MCA_REG_UART_IIR_THR \<noteq> 0
                                then resched_tx s else s)
                       in Some (IRQ_HANDLED, mutex_unlock s)))))"

text \<open>
  \<open>mca_uart_delayed_work_proc\<close> in two parts: the part that reads the pending bits and
  issues the register writes, and the two statements that end the function, which zero
  the pending bits and release the mutex.
\<close>

definition delayed_work_apply :: "hdr \<Rightarrow> mca_uart \<Rightarrow> mca_uart" where
  "delayed_work_apply K s0 =
     (let ier_mask = 0;
          cfg0_mask = 0;
          stop_rx = (pending_work s0 AND WORK_STOP_RX \<noteq> 0);
          ier_mask = (if stop_rx then ier_mask OR mca K MCA_REG_UART_IER_RHR else ier_mask);
          cfg0_mask = (if stop_rx then cfg0_mask OR mca K MCA_REG_UART_CFG0_CRX else cfg0_mask);
          stop_tx = (pending_work s0 AND WORK_STOP_TX \<noteq> 0);
          ier_mask = (if stop_tx then ier_mask OR mca K MCA_REG_UART_IER_THR else ier_mask);
          cfg0_mask = (if stop_tx then cfg0_mask OR mca K MCA_REG_UART_CFG0_CTX else cfg0_mask);
          (ret, s) = regmap_update_bits MCA_REG_UART_IER ier_mask 0 s0;
          s = log_if_failed ret ''Failed to write MCA_REG_UART_IER'' s;
          (ret, s) = regmap_update_bits MCA_REG_UART_CFG0 cfg0_mask
                       (mca K MCA_REG_UART_CFG0_CRX OR mca K MCA_REG_UART_CFG0_CRX) s;
          s = log_if_failed ret ''Failed to write MCA_REG_UART_CFG0'' s
      in if pending_work s AND WORK_SET_RTS \<noteq> 0 \<or> pending_work s AND WORK_CLEAR_RTS \<noteq> 0
         then
           (let msr_mask = (ucast (if pending_work s AND WORK_SET_RTS \<noteq> 0
                                   then mca K MCA_REG_UART_MSR_RTS else 0) :: u8);
                (ret, s) = regmap_update_bits MCA_REG_UART_MSR
                             (mca K MCA_REG_UART_MSR_RTS) (ucast msr_mask) s
            in log_if_failed ret ''Failed to write MCA_REG_UART_MSR'' s)
         else s)"

definition delayed_work_finish :: "mca_uart \<Rightarrow> mca_uart" where
  "delayed_work_finish s = mutex_unlock (s\<lparr>pending_work := 0\<rparr>)"

definition mca_uart_delayed_work_proc :: "hdr \<Rightarrow> mca_uart \<Rightarrow> mca_uart option" where
  "mca_uart_delayed_work_proc K s0 =
     (case mutex_lock (dev_dbg ''<mca_uart_delayed_work_proc>'' s0) of
        None \<Rightarrow> None
      | Some s \<Rightarrow>
          if pending_work s = 0 then Some s
          else Some (delayed_work_finish (delayed_work_apply K s)))"

definition mca_uart_tx_work_proc :: "hdr \<Rightarrow> mca_uart \<Rightarrow> mca_uart option" where
  "mca_uart_tx_work_proc K s0 =
     (case mutex_lock (dev_dbg ''<mca_uart_tx_work_proc>'' s0) of
        None \<Rightarrow> None
      | Some s \<Rightarrow> Some (mutex_unlock (mca_uart_handle_tx K s)))"

subsection \<open>A sample header and sample states\<close>

text \<open>
  A header to run the model on: the termios and serial core constants have the values of
  the Linux headers (with a transmit buffer of one 4096-byte page); the MCA masks and codes
  are sample values, one bit for each mask of a register and one code for each line error.
\<close>

fun sample_mca :: "mca_const \<Rightarrow> u32" where
  "sample_mca MCA_REG_UART_CFG0_CTX = 4"
| "sample_mca MCA_REG_UART_CFG0_CRX = 8"
| "sample_mca MCA_REG_UART_CFG1_TWO_STOPBITS = 1"
| "sample_mca MCA_REG_UART_CFG1_PARITY_EN = 2"
| "sample_mca MCA_REG_UART_CFG1_PARITY_ODD = 4"
| "sample_mca MCA_REG_UART_CFG1_CTS_EN = 8"
| "sample_mca MCA_REG_UART_CFG1_RTS_EN = 16"
| "sample_mca MCA_REG_UART_IER_THR = 1"
| "sample_mca MCA_REG_UART_IER_RHR = 2"
| "sample_mca MCA_REG_UART_IIR_THR = 1"
| "sample_mca MCA_REG_UART_IIR_RHR = 2"
| "sample_mca MCA_REG_UART_IIR_RLSE = 4"
| "sample_mca MCA_REG_UART_MSR_RTS = 2"
| "sample_mca MCA_REG_UART_LSR_FRAMING_ERROR = 1"
| "sample_mca MCA_REG_UART_LSR_PARITY_ERROR = 2"
| "sample_mca MCA_REG_UART_LSR_FIFO_OR_ERROR = 4"
| "sample_mca MCA_REG_UART_LSR_BREAK = 8"
| "sample_mca MCA_REG_UART_LSR_HW_OR_ERROR = 16"
| "sample_mca MCA_REG_UART_LSR_NO_ERROR = 0"
| "sample_mca MCA_REG_UART_BAUD_1200 = 0"
| "sample_mca MCA_REG_UART_BAUD_2400 = 1"
| "sample_mca MCA_REG_UART_BAUD_4800 = 2"
| "sample_mca MCA_REG_UART_BAUD_9600 = 3"
| "sample_mca MCA_REG_UART_BAUD_19200 = 4"
| "sample_mca MCA_REG_UART_BAUD_38400 = 5"
| "sample_mca MCA_REG_UART_BAUD_57600 = 6"
| "sample_mca MCA_REG_UART_BAUD_115200 = 7"
| "sample_mca MCA_REG_UART_BAUD_230400 = 8"

fun sample_ttyc :: "tty_const \<Rightarrow> u32" where
  "sample_ttyc CRTSCTS = 0x80000000"
| "sample_ttyc IXON = 0x400"
| "sample_ttyc IXOFF = 0x1000"
| "sample_ttyc IXANY = 0x800"
| "sample_ttyc CMSPAR = 0x40000000"
| "sample_ttyc CSIZE = 0x30"
| "sample_ttyc CS8 = 0x30"
| "sample_ttyc CSTOPB = 0x40"
| "sample_ttyc PARENB = 0x100"
| "sample_ttyc PARODD = 0x200"
| "sample_ttyc UPSTAT_AUTOCTS = 8"
| "sample_ttyc UPSTAT_AUTORTS = 4"
| "sample_ttyc TIOCSER_TEMT = 1"
| "sample_ttyc UART_XMIT_SIZE = 4096"
| "sample_ttyc WAKEUP_CHARS = 256"

definition sample_hdr :: hdr where
  "sample_hdr = \<lparr>mca = sample_mca, ttyc = sample_ttyc\<rparr>"

text \<open>Bus replies: a value, bytes, a plain success, a failure with \<open>-EIO\<close>.\<close>

definition reply_val :: "u32 \<Rightarrow> reply" where
  "reply_val v = \<lparr>r_ret = 0, r_val = v, r_data = (\<lambda>i. 0)\<rparr>"

definition reply_bytes :: "u8 list \<Rightarrow> reply" where
  "reply_bytes bs = \<lparr>r_ret = 0, r_val = 0, r_data = (\<lambda>i. if i < length bs then bs ! i else 0)\<rparr>"

definition reply_ok :: reply where
  "reply_ok = reply_val 0"

definition reply_fail :: reply where
  "reply_fail = \<lparr>r_ret = - 5, r_val = 0, r_data = (\<lambda>i. 0)\<rparr>"

text \<open>A bus that answers with the replies of a list, in order, and fails after that.\<close>

definition scripted :: "reply list \<Rightarrow> nat \<Rightarrow> reply" where
  "scripted rs k = (if k < length rs then rs ! k else reply_fail)"

text \<open>
  An idle port on a scripted bus: mutex free, nothing pending, counters at zero, an open
  tty that is not flow-stopped, \<open>n\<close> bytes \<open>0x55\<close> waiting in the transmit buffer, a
  sysrq filter that consumes nothing and a flip buffer with room for \<open>room\<close> characters.
\<close>

definition idle_port :: "reply list \<Rightarrow> u32 \<Rightarrow> nat \<Rightarrow> mca_uart" where
  "idle_port rs n room =
     \<lparr>mutex = False, pending_work = 0, tx_work = False, delayed_work = False,
      has_rtscts = 0,
      icount = \<lparr>rx = 0, tx = 0, frame = 0, overrun = 0, parity = 0, brk = 0\<rparr>,
      status = 0,
      xmit = \<lparr>buf = replicate 4096 0x55, head = n, tail = 0\<rparr>,
      tty = True, tx_stopped = False,
      bus = scripted rs, bus_seq = 0, sysrq = (\<lambda>ch. False),
      flip = [], flip_room = room, fault = False, trace = []\<rparr>"


subsection \<open>Observations on runs\<close>

text \<open>The events that are bus transactions, and the events a run added to the trace.\<close>

fun is_bus_op :: "event \<Rightarrow> bool" where
  "is_bus_op (BusRead r) = True"
| "is_bus_op (BusBulkRead r n) = True"
| "is_bus_op (BusWrite r v) = True"
| "is_bus_op (BusBulkWrite r bs) = True"
| "is_bus_op (BusUpdateBits r m v) = True"
| "is_bus_op e = False"

definition new_events :: "mca_uart \<Rightarrow> mca_uart \<Rightarrow> event list" where
  "new_events s s' = drop (length (trace s)) (trace s')"

text \<open>
  Modelled from the spec: \<open>regmap_update_bits\<close> belongs to the regmap core, which is not
  among the sources. It is the read-modify-write operation of the bus access layer: the
  bits of the mask take the value given, the other bits of the register keep theirs.
\<close>

definition update_bits_value :: "u32 \<Rightarrow> u32 \<Rightarrow> u32 \<Rightarrow> u32" where
  "update_bits_value old m v = (old AND NOT m) OR (v AND m)"

text \<open>
  The interrupt-enable mask and the configuration mask that belong to the stop bits of a
  pending-work value: the RX bit of each for stop-RX, OR'd with the TX bit for stop-TX.
\<close>

definition stop_bits_ier :: "hdr \<Rightarrow> u32 \<Rightarrow> u32" where
  "stop_bits_ier K p =
     (if p AND WORK_STOP_RX \<noteq> 0 then mca K MCA_REG_UART_IER_RHR else 0)
     OR (if p AND WORK_STOP_TX \<noteq> 0 then mca K MCA_REG_UART_IER_THR else 0)"

definition stop_bits_cfg0 :: "hdr \<Rightarrow> u32 \<Rightarrow> u32" where
  "stop_bits_cfg0 K p =
     (if p AND WORK_STOP_RX \<noteq> 0 then mca K MCA_REG_UART_CFG0_CRX else 0)
     OR (if p AND WORK_STOP_TX \<noteq> 0 then mca K MCA_REG_UART_CFG0_CTX else 0)"

text \<open>The events of the register-writing part of the delayed work function.\<close>

definition apply_events :: "hdr \<Rightarrow> mca_uart \<Rightarrow> event list" where
  "apply_events K s =
     [BusUpdateBits MCA_REG_UART_IER (stop_bits_ier K (pending_work s)) 0]
     @ (if r_ret (bus s (bus_seq s)) \<noteq> 0
        then [Log Err ''Failed to write MCA_REG_UART_IER''] else [])
     @ [BusUpdateBits MCA_REG_UART_CFG0 (stop_bits_cfg0 K (pending_work s))
          (mca K MCA_REG_UART_CFG0_CRX)]
     @ (if r_ret (bus s (Suc (bus_seq s))) \<noteq> 0
        then [Log Err ''Failed to write MCA_REG_UART_CFG0''] else [])
     @ (if pending_work s AND WORK_SET_RTS \<noteq> 0 \<or> pending_work s AND WORK_CLEAR_RTS \<noteq> 0
        then [BusUpdateBits MCA_REG_UART_MSR (mca K MCA_REG_UART_MSR_RTS)
                (ucast (ucast (if pending_work s AND WORK_SET_RTS \<noteq> 0
                               then mca K MCA_REG_UART_MSR_RTS else 0) :: u8))]
             @ (if r_ret (bus s (Suc (Suc (bus_seq s)))) \<noteq> 0
                then [Log Err ''Failed to write MCA_REG_UART_MSR''] else [])
        else [])"

text \<open>
  The workqueue runs a pending work item by clearing its pending bit and calling the
  work function.
\<close>

definition run_delayed_work :: "hdr \<Rightarrow> mca_uart \<Rightarrow> mca_uart option" where
  "run_delayed_work K s =
     (if delayed_work s then mca_uart_delayed_work_proc K (s\<lparr>delayed_work := False\<rparr>)
      else Some s)"

text \<open>
  A run of the delayed work function during which, after the register writes and before
  the two statements that end the function, \<open>mca_uart_stop_tx\<close> is called from
  another context (the work function sleeps in each bus transaction, and the caller of
  \<open>mca_uart_stop_tx\<close> takes no lock).
\<close>

definition delayed_work_with_stop_tx :: "hdr \<Rightarrow> mca_uart \<Rightarrow> mca_uart option" where
  "delayed_work_with_stop_tx K s0 =
     (case mutex_lock (dev_dbg ''<mca_uart_delayed_work_proc>'' s0) of
        None \<Rightarrow> None
      | Some s \<Rightarrow>
          if pending_work s = 0 then Some s
          else Some (delayed_work_finish (mca_uart_stop_tx (delayed_work_apply K s))))"

text \<open>
  The headroom the TX engine works with: the value read from the free-space register,
  or 0 when the read fails. The events of that read: the bus transaction, and the error
  line when it fails.
\<close>

definition tx_headroom :: "mca_uart \<Rightarrow> u32" where
  "tx_headroom s =
     (if r_ret (bus s (bus_seq s)) \<noteq> 0 then 0 else r_val (bus s (bus_seq s)))"

definition tx_read_events :: "mca_uart \<Rightarrow> event list" where
  "tx_read_events s =
     [BusRead MCA_REG_UART_TXLVL]
     @ (if r_ret (bus s (bus_seq s)) \<noteq> 0
        then [Log Err ''Failed to read MCA_REG_UART_TXLVL''] else [])"

text \<open>
  The number of bytes a run of the TX engine takes from the transmit buffer: the smaller
  of the pending count and the headroom when the headroom fits the staging buffer, none
  when it exceeds it.
\<close>

definition tx_advance :: "hdr \<Rightarrow> mca_uart \<Rightarrow> u32" where
  "tx_advance K s =
     (if tx_headroom s \<le> MCA_UART_TX_FIFO_SIZE
      then min (uart_circ_chars_pending K (xmit s)) (tx_headroom s) else 0)"

text \<open>
  The baud rates the port supports, each with the name of its baud-select value, and the
  value the baud-select register is to hold for a negotiated baud rate: the matching one,
  or the one of the default rate 9600 for a rate that is not in the table.
\<close>

definition supported_bauds :: "(u32 \<times> mca_const) list" where
  "supported_bauds =
     [(1200, MCA_REG_UART_BAUD_1200), (2400, MCA_REG_UART_BAUD_2400),
      (4800, MCA_REG_UART_BAUD_4800), (9600, MCA_REG_UART_BAUD_9600),
      (19200, MCA_REG_UART_BAUD_19200), (38400, MCA_REG_UART_BAUD_38400),
      (57600, MCA_REG_UART_BAUD_57600), (115200, MCA_REG_UART_BAUD_115200),
      (230400, MCA_REG_UART_BAUD_230400)]"

definition baud_reg_value :: "hdr \<Rightarrow> u32 \<Rightarrow> u32" where
  "baud_reg_value K b =
     (case map_of supported_bauds b of
        Some c \<Rightarrow> mca K c
      | None \<Rightarrow> mca K MCA_REG_UART_BAUD_9600)"

text \<open>
  Where a run of the RX engine ends, read off the replies of the bus in the order
  \<open>mca_uart_handle_rx\<close> asks for them: the level read fails; the level is zero; the
  line-status read fails; the bulk read of the error vector fails; that read succeeds
  with a level above the 128 bytes of \<open>error_buf\<close>; the data read fails twice; the
  data read succeeds with a level above the 128 bytes of \<open>rx_buf\<close>; the batch is
  delivered. \<open>rx_level\<close> is the reported FIFO level, \<open>rx_error_vector\<close> says that
  the error vector is in use (errors flagged and a nonzero line status),
  \<open>rx_data_index\<close> is the number of the bus transaction that reads the data,
  \<open>flushes\<close> counts the batch notifications in the trace, and \<open>rx_pre_events\<close> are
  the events of a run up to the data read.
\<close>

datatype rx_end =
    LevelReadFailed | NothingQueued | StatusReadFailed | ErrorVectorReadFailed
  | ErrorVectorOverflow | DataReadFailedTwice | DataOverflow | Delivered

definition rx_level :: "mca_uart \<Rightarrow> u32" where
  "rx_level s = r_val (bus s (bus_seq s))"

definition rx_error_vector :: "bool \<Rightarrow> mca_uart \<Rightarrow> bool" where
  "rx_error_vector has_errors s = (has_errors \<and> r_val (bus s (Suc (bus_seq s))) \<noteq> 0)"

definition rx_data_index :: "bool \<Rightarrow> mca_uart \<Rightarrow> nat" where
  "rx_data_index has_errors s =
     (if has_errors then (if r_val (bus s (Suc (bus_seq s))) \<noteq> 0
                          then Suc (Suc (Suc (bus_seq s)))
                          else Suc (Suc (bus_seq s)))
      else Suc (bus_seq s))"

definition rx_end_of :: "bool \<Rightarrow> mca_uart \<Rightarrow> rx_end" where
  "rx_end_of has_errors s =
     (if r_ret (bus s (bus_seq s)) \<noteq> 0 then LevelReadFailed
      else if rx_level s = 0 then NothingQueued
      else if has_errors \<and> r_ret (bus s (Suc (bus_seq s))) \<noteq> 0 then StatusReadFailed
      else if rx_error_vector has_errors s \<and> r_ret (bus s (Suc (Suc (bus_seq s)))) \<noteq> 0
        then ErrorVectorReadFailed
      else if rx_error_vector has_errors s \<and> MCA_UART_RX_FIFO_SIZE < rx_level s
        then ErrorVectorOverflow
      else if r_ret (bus s (rx_data_index has_errors s)) \<noteq> 0
              \<and> r_ret (bus s (Suc (rx_data_index has_errors s))) \<noteq> 0
        then DataReadFailedTwice
      else if MCA_UART_RX_FIFO_SIZE < rx_level s then DataOverflow
      else Delivered)"

definition flushes :: "mca_uart \<Rightarrow> nat" where
  "flushes s = count_list (trace s) FlipPush"

definition rx_pre_events :: "bool \<Rightarrow> mca_uart \<Rightarrow> event list" where
  "rx_pre_events has_errors s =
     [Log Dbg ''<mca_uart_handle_rx>'', BusRead MCA_REG_UART_RXLVL]
     @ (if has_errors then
          BusRead MCA_REG_UART_LSR
          # (if r_val (bus s (Suc (bus_seq s))) \<noteq> 0
             then [BusBulkRead MCA_REG_UART_RX_ERRORS (rx_level s)] else [])
        else [])"






section \<open>Properties\<close>

subsection \<open>The transmitter-empty query\<close>

text \<open>
  C10. The transmitter-empty query answers \<open>TIOCSER_TEMT\<close> (transmitter empty) exactly when
  the read of the TX free-space register fails or yields the TX FIFO size, 128, and
  answers 0 otherwise. A failed read is reported as an empty transmitter, not as an
  error: the function has no error result.
\<close>

theorem tx_empty_query:
  assumes "ttyc K TIOCSER_TEMT \<noteq> 0"
  shows "(r_ret (bus s (bus_seq s)) \<noteq> 0 \<longrightarrow>
            fst (mca_uart_tx_empty K s) = ttyc K TIOCSER_TEMT)
       \<and> (r_ret (bus s (bus_seq s)) = 0 \<longrightarrow>
            (fst (mca_uart_tx_empty K s) = ttyc K TIOCSER_TEMT
               \<longleftrightarrow> r_val (bus s (bus_seq s)) = 128)
          \<and> (fst (mca_uart_tx_empty K s) = 0
               \<longleftrightarrow> r_val (bus s (bus_seq s)) \<noteq> 128))"
  using assms
  by (simp add: mca_uart_tx_empty_def regmap_read_def bus_call_def dev_dbg_def dev_err_def
      emit_def MCA_UART_TX_FIFO_SIZE_def Let_def split_def)

theorem tx_empty_query_witness:
  "ttyc sample_hdr TIOCSER_TEMT \<noteq> 0
   \<and> fst (mca_uart_tx_empty sample_hdr (idle_port [reply_fail] 0 0)) = 1
   \<and> fst (mca_uart_tx_empty sample_hdr (idle_port [reply_val 128] 0 0)) = 1
   \<and> fst (mca_uart_tx_empty sample_hdr (idle_port [reply_val 100] 0 0)) = 0"
proof -
  have k: "ttyc sample_hdr TIOCSER_TEMT \<noteq> 0"
    by (simp add: sample_hdr_def)
  show ?thesis
    using k
      tx_empty_query [OF k, of "idle_port [reply_fail] 0 0"]
      tx_empty_query [OF k, of "idle_port [reply_val 128] 0 0"]
      tx_empty_query [OF k, of "idle_port [reply_val 100] 0 0"]
    by (simp add: sample_hdr_def idle_port_def scripted_def reply_fail_def reply_val_def)
qed

subsection \<open>Kernel services in normal form\<close>

lemma emit_eq: "emit e s = s\<lparr>trace := trace s @ [e]\<rparr>"
  by (simp add: emit_def)

lemma log_if_failed_eq:
  "log_if_failed ret m s = s\<lparr>trace := trace s @ (if ret \<noteq> 0 then [Log Err m] else [])\<rparr>"
  by (simp add: log_if_failed_def dev_err_def emit_def)

lemma regmap_read_eq:
  "regmap_read r s = ((r_ret (bus s (bus_seq s)), r_val (bus s (bus_seq s))),
                      s\<lparr>bus_seq := Suc (bus_seq s), trace := trace s @ [BusRead r]\<rparr>)"
  by (simp add: regmap_read_def bus_call_def emit_def)

lemma regmap_write_eq:
  "regmap_write r v s = (r_ret (bus s (bus_seq s)),
                      s\<lparr>bus_seq := Suc (bus_seq s), trace := trace s @ [BusWrite r v]\<rparr>)"
  by (simp add: regmap_write_def bus_call_def emit_def)

lemma regmap_update_bits_eq:
  "regmap_update_bits r m v s = (r_ret (bus s (bus_seq s)),
                      s\<lparr>bus_seq := Suc (bus_seq s), trace := trace s @ [BusUpdateBits r m v]\<rparr>)"
  by (simp add: regmap_update_bits_def bus_call_def emit_def)

lemma regmap_bulk_write_eq:
  "regmap_bulk_write r bs s = (r_ret (bus s (bus_seq s)),
                      s\<lparr>bus_seq := Suc (bus_seq s), trace := trace s @ [BusBulkWrite r bs]\<rparr>)"
  by (simp add: regmap_bulk_write_def bus_call_def emit_def)

lemma regmap_bulk_read_eq:
  "regmap_bulk_read r n s =
     ((r_ret (bus s (bus_seq s)),
       if r_ret (bus s (bus_seq s)) \<noteq> 0 then []
       else map (r_data (bus s (bus_seq s))) [0..<unat n]),
      s\<lparr>bus_seq := Suc (bus_seq s), trace := trace s @ [BusBulkRead r n]\<rparr>)"
  by (simp add: regmap_bulk_read_def bus_call_def emit_def)

lemmas bus_eqs = regmap_read_eq regmap_write_eq regmap_update_bits_eq regmap_bulk_write_eq
  regmap_bulk_read_eq log_if_failed_eq

lemma filter_if_log [simp]:
  "filter is_bus_op (if c then [Log l m] else []) = []"
  by simp


subsection \<open>The delayed work function\<close>

lemma delayed_work_apply_eq:
  "delayed_work_apply K s =
     s\<lparr>bus_seq := (if pending_work s AND WORK_SET_RTS \<noteq> 0 \<or> pending_work s AND WORK_CLEAR_RTS \<noteq> 0
                   then Suc (Suc (Suc (bus_seq s))) else Suc (Suc (bus_seq s))),
       trace := trace s @ apply_events K s\<rparr>"
  by (simp add: delayed_work_apply_def bus_eqs Let_def stop_bits_ier_def stop_bits_cfg0_def
      apply_events_def)

lemma bus_ops_apply_events:
  "filter is_bus_op (apply_events K s) =
     [BusUpdateBits MCA_REG_UART_IER (stop_bits_ier K (pending_work s)) 0,
      BusUpdateBits MCA_REG_UART_CFG0 (stop_bits_cfg0 K (pending_work s))
        (mca K MCA_REG_UART_CFG0_CRX)]
     @ (if pending_work s AND WORK_SET_RTS \<noteq> 0 \<or> pending_work s AND WORK_CLEAR_RTS \<noteq> 0
        then [BusUpdateBits MCA_REG_UART_MSR (mca K MCA_REG_UART_MSR_RTS)
                (ucast (ucast (if pending_work s AND WORK_SET_RTS \<noteq> 0
                               then mca K MCA_REG_UART_MSR_RTS else 0) :: u8))]
        else [])"
  by (simp add: apply_events_def)

lemma delayed_work_proc_pending:
  assumes "\<not> mutex s" "pending_work s \<noteq> 0"
  shows "mca_uart_delayed_work_proc K s =
           Some (s\<lparr>mutex := False, pending_work := 0,
                   bus_seq := (if pending_work s AND WORK_SET_RTS \<noteq> 0
                                  \<or> pending_work s AND WORK_CLEAR_RTS \<noteq> 0
                               then Suc (Suc (Suc (bus_seq s))) else Suc (Suc (bus_seq s))),
                   trace := trace s @ [Log Dbg ''<mca_uart_delayed_work_proc>'', MutexLock]
                            @ apply_events K (s\<lparr>mutex := True\<rparr>) @ [MutexUnlock]\<rparr>)"
  using assms
  by (simp add: mca_uart_delayed_work_proc_def delayed_work_apply_eq delayed_work_finish_def
      mutex_lock_def mutex_unlock_def dev_dbg_def emit_eq apply_events_def)

lemma delayed_work_bus_ops:
  assumes "\<not> mutex s" "pending_work s \<noteq> 0"
  shows "\<exists>s'. mca_uart_delayed_work_proc K s = Some s'
          \<and> filter is_bus_op (new_events s s') =
              [BusUpdateBits MCA_REG_UART_IER (stop_bits_ier K (pending_work s)) 0,
               BusUpdateBits MCA_REG_UART_CFG0 (stop_bits_cfg0 K (pending_work s))
                 (mca K MCA_REG_UART_CFG0_CRX)]
              @ (if pending_work s AND WORK_SET_RTS \<noteq> 0 \<or> pending_work s AND WORK_CLEAR_RTS \<noteq> 0
                 then [BusUpdateBits MCA_REG_UART_MSR (mca K MCA_REG_UART_MSR_RTS)
                         (ucast (ucast (if pending_work s AND WORK_SET_RTS \<noteq> 0
                                        then mca K MCA_REG_UART_MSR_RTS else 0) :: u8))]
                 else [])
          \<and> pending_work s' = 0 \<and> \<not> mutex s'"
  using delayed_work_proc_pending [OF assms, of K]
  by (simp add: new_events_def bus_ops_apply_events)

lemma update_bits_disjoint:
  "m AND v = 0 \<Longrightarrow> update_bits_value old m v = old AND NOT m"
  by (simp add: update_bits_value_def and.commute)

text \<open>
  C4. A run of the deferred control worker with stop bits pending issues one update of
  the interrupt-enable register that clears the OR of the enable bits of the stopped
  paths (lemma \<open>delayed_work_bus_ops\<close>), and one update of the configuration register
  whose mask is the OR of the FIFO-reset bits of the stopped paths. The value of that
  second update is \<open>CRX | CRX\<close> whatever is pending. With stop-TX alone pending the
  update is (mask \<open>CTX\<close>, value \<open>CRX\<close>): as the two are different bits, it clears
  the TX FIFO-reset bit where the claim has it set, and nothing resets or disables the
  TX path.
\<close>

theorem stop_tx_write_value:
  assumes "\<not> mutex s" and "pending_work s = WORK_STOP_TX"
    and "mca K MCA_REG_UART_CFG0_CTX AND mca K MCA_REG_UART_CFG0_CRX = 0"
  shows "\<exists>s'. mca_uart_delayed_work_proc K s = Some s'
          \<and> filter is_bus_op (new_events s s') =
              [BusUpdateBits MCA_REG_UART_IER (mca K MCA_REG_UART_IER_THR) 0,
               BusUpdateBits MCA_REG_UART_CFG0 (mca K MCA_REG_UART_CFG0_CTX)
                 (mca K MCA_REG_UART_CFG0_CRX)]
          \<and> (\<forall>old. update_bits_value old (mca K MCA_REG_UART_CFG0_CTX)
                      (mca K MCA_REG_UART_CFG0_CRX) = old AND NOT (mca K MCA_REG_UART_CFG0_CTX))"
proof -
  have p: "pending_work s \<noteq> 0"
    by (simp add: assms(2) WORK_STOP_TX_def)
  have m: "stop_bits_ier K WORK_STOP_TX = mca K MCA_REG_UART_IER_THR"
    "stop_bits_cfg0 K WORK_STOP_TX = mca K MCA_REG_UART_CFG0_CTX"
    "WORK_STOP_TX AND WORK_SET_RTS = 0" "WORK_STOP_TX AND WORK_CLEAR_RTS = 0"
    by (simp_all add: stop_bits_ier_def stop_bits_cfg0_def WORK_STOP_TX_def WORK_STOP_RX_def
        WORK_SET_RTS_def WORK_CLEAR_RTS_def)
  show ?thesis
    using delayed_work_proc_pending [OF assms(1) p, of K] update_bits_disjoint [OF assms(3)]
    by (simp add: new_events_def bus_ops_apply_events assms(2) m)
qed

theorem stop_tx_write_value_witness:
  "filter is_bus_op
     (trace (the (mca_uart_delayed_work_proc sample_hdr
                    ((idle_port [reply_ok, reply_ok] 0 0)\<lparr>pending_work := WORK_STOP_TX\<rparr>)))) =
     [BusUpdateBits MCA_REG_UART_IER 1 0, BusUpdateBits MCA_REG_UART_CFG0 4 8]
   \<and> update_bits_value 0xC 4 8 = 8"
  using stop_tx_write_value [of "(idle_port [reply_ok, reply_ok] 0 0)\<lparr>pending_work := WORK_STOP_TX\<rparr>"
      sample_hdr]
  by (auto simp add: idle_port_def sample_hdr_def new_events_def)

subsection \<open>The mutex\<close>

lemma tx_work_proc_releases:
  "\<not> mutex s \<Longrightarrow> \<exists>s'. mca_uart_tx_work_proc K s = Some s' \<and> \<not> mutex s'"
  by (simp add: mca_uart_tx_work_proc_def mutex_lock_def mutex_unlock_def dev_dbg_def emit_eq)

lemma irq_handler_releases_when_read_ok:
  "\<not> mutex s \<Longrightarrow> r_ret (bus s (bus_seq s)) = 0 \<Longrightarrow>
   \<exists>s'. mca_uart_irq_handler K s = Some (IRQ_HANDLED, s') \<and> (\<not> fault s' \<longrightarrow> \<not> mutex s')"
  by (simp add: mca_uart_irq_handler_def mutex_lock_def mutex_unlock_def dev_dbg_def emit_eq
      regmap_read_eq Let_def)

text \<open>
  C1. Every operation that takes the bus mutex releases it before it returns, on every
  path. The TX work function does, and so do the interrupt handler after a successful
  status read and the delayed work function when work is pending (lemmas
  \<open>tx_work_proc_releases\<close>, \<open>irq_handler_releases_when_read_ok\<close>,
  \<open>delayed_work_proc_pending\<close>). On the two paths the claim names the code returns
  with the mutex held: the interrupt handler whose read of the status register fails
  returns \<open>IRQ_HANDLED\<close> right after logging, and the delayed work function that finds
  no pending bit returns right after taking the mutex. The theorem gives the state each
  of them returns; any later operation on the mutex then blocks (lemma
  \<open>held_mutex_blocks\<close>, stated after it).
\<close>

theorem mutex_left_held:
  "(\<not> mutex s \<and> r_ret (bus s (bus_seq s)) \<noteq> 0 \<longrightarrow>
      mca_uart_irq_handler K s =
        Some (IRQ_HANDLED,
              s\<lparr>mutex := True, bus_seq := Suc (bus_seq s),
                trace := trace s @ [Log Dbg ''<mca_uart_irq_handler>'', MutexLock,
                                    BusRead MCA_REG_UART_IIR,
                                    Log Err ''Failed to read MCA_REG_UART_IIR'']\<rparr>))
   \<and> (\<not> mutex s \<and> pending_work s = 0 \<longrightarrow>
      mca_uart_delayed_work_proc K s =
        Some (s\<lparr>mutex := True,
                trace := trace s @ [Log Dbg ''<mca_uart_delayed_work_proc>'', MutexLock]\<rparr>))"
  by (simp add: mca_uart_irq_handler_def mca_uart_delayed_work_proc_def mutex_lock_def
      dev_dbg_def dev_err_def emit_eq regmap_read_eq)

theorem mutex_left_held_witness:
  "mutex (snd (the (mca_uart_irq_handler sample_hdr (idle_port [reply_fail] 0 0))))
   \<and> mutex (the (mca_uart_delayed_work_proc sample_hdr (idle_port [] 0 0)))"
  using mutex_left_held [of "idle_port [reply_fail] 0 0" sample_hdr]
        mutex_left_held [of "idle_port [] 0 0" sample_hdr]
  by (simp add: idle_port_def scripted_def reply_fail_def)

lemma held_mutex_blocks:
  "mutex s \<Longrightarrow> mca_uart_irq_handler K s = None \<and> mca_uart_delayed_work_proc K s = None
     \<and> mca_uart_tx_work_proc K s = None"
  by (simp add: mca_uart_irq_handler_def mca_uart_delayed_work_proc_def
      mca_uart_tx_work_proc_def mutex_lock_def dev_dbg_def emit_eq)

subsection \<open>A stop request during a run of the delayed work function\<close>

lemma stop_tx_eq:
  "mca_uart_stop_tx s =
     s\<lparr>pending_work := pending_work s OR WORK_STOP_TX, delayed_work := True,
       trace := trace s @ [Log Dbg ''<mca_uart_stop_tx>'']
                @ (if delayed_work s then [] else [ScheduleWork DELAYED_WORK])\<rparr>"
  by (simp add: mca_uart_stop_tx_def dev_dbg_def emit_eq work_pending_def schedule_work_def
      Let_def)

text \<open>
  C9. A stop request that arrives while the delayed work function runs survives to the
  next run. In the code the function ends with \<open>pending_work = 0\<close>, which also zeroes
  a bit set since the function read the bits. The run below starts with stop-RX pending;
  \<open>mca_uart_stop_tx\<close> is called after the register writes of the run: it sets the
  stop-TX bit and schedules the work again (lemma \<open>stop_tx_eq\<close>). The run then zeroes
  the bits; the scheduled run finds none pending and writes nothing. Over both runs the
  only bus transactions are those of stop-RX: the stop-TX request is dropped.
\<close>

theorem stop_tx_during_run_lost:
  assumes "\<not> mutex s" and "pending_work s = WORK_STOP_RX" and "\<not> delayed_work s"
  shows "\<exists>s1 s2. delayed_work_with_stop_tx K s = Some s1
           \<and> pending_work s1 = 0 \<and> delayed_work s1 \<and> \<not> mutex s1
           \<and> run_delayed_work K s1 = Some s2
           \<and> pending_work s2 = 0 \<and> \<not> delayed_work s2
           \<and> filter is_bus_op (new_events s s2) =
                [BusUpdateBits MCA_REG_UART_IER (mca K MCA_REG_UART_IER_RHR) 0,
                 BusUpdateBits MCA_REG_UART_CFG0 (mca K MCA_REG_UART_CFG0_CRX)
                   (mca K MCA_REG_UART_CFG0_CRX)]"
proof -
  have m: "stop_bits_ier K WORK_STOP_RX = mca K MCA_REG_UART_IER_RHR"
    "stop_bits_cfg0 K WORK_STOP_RX = mca K MCA_REG_UART_CFG0_CRX"
    "WORK_STOP_RX AND WORK_SET_RTS = 0" "WORK_STOP_RX AND WORK_CLEAR_RTS = 0"
    "WORK_STOP_RX \<noteq> 0"
    by (simp_all add: stop_bits_ier_def stop_bits_cfg0_def WORK_STOP_TX_def WORK_STOP_RX_def
        WORK_SET_RTS_def WORK_CLEAR_RTS_def)
  show ?thesis
    using assms
    by (simp add: delayed_work_with_stop_tx_def run_delayed_work_def
        mca_uart_delayed_work_proc_def delayed_work_apply_eq delayed_work_finish_def
        stop_tx_eq mutex_lock_def mutex_unlock_def dev_dbg_def emit_eq new_events_def
        bus_ops_apply_events m)
qed

theorem stop_tx_during_run_lost_witness:
  "pending_work (the (run_delayed_work sample_hdr
      (the (delayed_work_with_stop_tx sample_hdr
              ((idle_port [reply_ok, reply_ok] 0 0)\<lparr>pending_work := WORK_STOP_RX\<rparr>))))) = 0"
  using stop_tx_during_run_lost
    [of "(idle_port [reply_ok, reply_ok] 0 0)\<lparr>pending_work := WORK_STOP_RX\<rparr>" sample_hdr]
  by (auto simp add: idle_port_def)

subsection \<open>The TX engine\<close>

lemma resched_tx_eq:
  "resched_tx s = s\<lparr>tx_work := True,
      trace := trace s @ (if tx_work s then [] else [ScheduleWork TX_WORK])\<rparr>"
  by (simp add: resched_tx_def work_pending_def schedule_work_def emit_eq)

lemma handle_tx_block_no_room:
  assumes "tx_headroom s = 0 \<or> MCA_UART_TX_FIFO_SIZE < tx_headroom s"
  shows "handle_tx_block K to_send s =
           (s\<lparr>tx_work := True, bus_seq := Suc (bus_seq s),
              trace := trace s @ tx_read_events s
                @ [if tx_headroom s = 0 then Log Dbg ''TX FIFO is full''
                   else Log Err ''Invalid MCA_REG_UART_TXLVL value %d'']
                @ (if tx_work s then [] else [ScheduleWork TX_WORK])\<rparr>, True)"
  using assms
  by (auto simp add: handle_tx_block_def bus_eqs resched_tx_eq dev_dbg_def dev_err_def emit_eq
      tx_headroom_def tx_read_events_def Let_def)


lemma handle_tx_no_room:
  assumes "tty s" and "\<not> uart_circ_empty (xmit s)" and "\<not> tx_stopped s"
    and "uart_circ_chars_pending K (xmit s) \<noteq> 0"
    and "tx_headroom s = 0 \<or> 128 < tx_headroom s"
  shows "mca_uart_handle_tx K s =
           s\<lparr>tx_work := True, bus_seq := Suc (bus_seq s),
             trace := trace s @ tx_read_events s
                @ [if tx_headroom s = 0 then Log Dbg ''TX FIFO is full''
                   else Log Err ''Invalid MCA_REG_UART_TXLVL value %d'']
                @ (if tx_work s then [] else [ScheduleWork TX_WORK])\<rparr>"
proof -
  have h: "tx_headroom s = 0 \<or> MCA_UART_TX_FIFO_SIZE < tx_headroom s"
    using assms(5) by (simp add: MCA_UART_TX_FIFO_SIZE_def)
  show ?thesis
    using assms(1-4) by (simp add: mca_uart_handle_tx_def handle_tx_block_no_room [OF h])
qed

text \<open>
  C7. A run of the TX engine with data pending: a failed read of the free-space register
  counts as headroom 0; when the headroom is 0 or above 128 the run issues no bulk
  write, leaves the transmit buffer (and so its tail) and the counters as they were,
  logs (\<open>TX FIFO is full\<close> at debug level for 0, the invalid-value error above 128),
  and leaves the TX work pending: it schedules it unless it is pending already.
\<close>

theorem tx_no_room_reschedules:
  assumes "tty s" and "\<not> uart_circ_empty (xmit s)" and "\<not> tx_stopped s"
    and "uart_circ_chars_pending K (xmit s) \<noteq> 0"
    and "tx_headroom s = 0 \<or> 128 < tx_headroom s"
  shows "(r_ret (bus s (bus_seq s)) \<noteq> 0 \<longrightarrow> tx_headroom s = 0)
       \<and> xmit (mca_uart_handle_tx K s) = xmit s
       \<and> icount (mca_uart_handle_tx K s) = icount s
       \<and> tx_work (mca_uart_handle_tx K s)
       \<and> new_events s (mca_uart_handle_tx K s) =
            tx_read_events s
            @ [if tx_headroom s = 0 then Log Dbg ''TX FIFO is full''
               else Log Err ''Invalid MCA_REG_UART_TXLVL value %d'']
            @ (if tx_work s then [] else [ScheduleWork TX_WORK])
       \<and> (\<forall>e \<in> set (new_events s (mca_uart_handle_tx K s)). \<forall>r bs. e \<noteq> BusBulkWrite r bs)"
proof -
  note eq = handle_tx_no_room [OF assms]
  have "\<forall>e \<in> set (new_events s (mca_uart_handle_tx K s)). \<forall>r bs. e \<noteq> BusBulkWrite r bs"
    by (auto simp add: eq new_events_def tx_read_events_def split: if_splits)
  then show ?thesis
    by (simp add: eq new_events_def tx_headroom_def)
qed

theorem tx_no_room_reschedules_witness:
  "tail (xmit (mca_uart_handle_tx sample_hdr (idle_port [reply_val 200] 5 0))) = 0
   \<and> tx (icount (mca_uart_handle_tx sample_hdr (idle_port [reply_val 200] 5 0))) = 0
   \<and> tx_work (mca_uart_handle_tx sample_hdr (idle_port [reply_val 200] 5 0))
   \<and> new_events (idle_port [reply_val 200] 5 0)
        (mca_uart_handle_tx sample_hdr (idle_port [reply_val 200] 5 0)) =
      [BusRead MCA_REG_UART_TXLVL, Log Err ''Invalid MCA_REG_UART_TXLVL value %d'',
       ScheduleWork TX_WORK]
   \<and> new_events (idle_port [reply_fail] 5 0)
        (mca_uart_handle_tx sample_hdr (idle_port [reply_fail] 5 0)) =
      [BusRead MCA_REG_UART_TXLVL, Log Err ''Failed to read MCA_REG_UART_TXLVL'',
       Log Dbg ''TX FIFO is full'', ScheduleWork TX_WORK]"
proof -
  have a: "tty (idle_port rs 5 0)" "\<not> uart_circ_empty (xmit (idle_port rs 5 0))"
    "\<not> tx_stopped (idle_port rs 5 0)"
    "uart_circ_chars_pending sample_hdr (xmit (idle_port rs 5 0)) \<noteq> 0" for rs
    by (simp_all add: idle_port_def uart_circ_empty_def uart_circ_chars_pending_def
        sample_hdr_def)
  have b: "tx_headroom (idle_port [reply_val 200] 5 0) = 0
           \<or> 128 < tx_headroom (idle_port [reply_val 200] 5 0)"
    by (simp add: tx_headroom_def idle_port_def scripted_def reply_val_def)
  have c: "tx_headroom (idle_port [reply_fail] 5 0) = 0
           \<or> 128 < tx_headroom (idle_port [reply_fail] 5 0)"
    by (simp add: tx_headroom_def idle_port_def scripted_def reply_fail_def)
  show ?thesis
    using tx_no_room_reschedules [OF a b] tx_no_room_reschedules [OF a c]
    by (simp add: tx_headroom_def tx_read_events_def idle_port_def scripted_def reply_val_def
        reply_fail_def)
qed

subsection \<open>The TX engine: the copy loop\<close>

lemma masked_sub:
  fixes a k :: u32
  assumes "k \<le> a AND mask n"
  shows "(a - k) AND mask n = (a AND mask n) - k"
proof -
  let ?p = "a AND mask n"
  have "(a - k) AND mask n = (?p - k) AND mask n"
    by (simp add: mask_eqs)
  moreover have "?p - k \<le> ?p"
    using assms by (simp add: word_sub_le)
  moreover have "uint ?p < 2 ^ n"
    by (metis mask_eq_iff and.right_idem and.assoc)
  ultimately show ?thesis
    by (metis mask_eq_iff word_le_def order_le_less_trans)
qed

lemma inc_le32: "(i::u32) < m \<Longrightarrow> i + 1 \<le> m"
  by unat_arith

lemma tx_copy_snd:
  "ttyc K UART_XMIT_SIZE = 2 ^ n \<Longrightarrow> i \<le> to_send \<Longrightarrow> tail x AND mask n = tail x \<Longrightarrow>
   snd (tx_copy K i to_send b x) = x\<lparr>tail := (tail x + (to_send - i)) AND mask n\<rparr>"
proof (induction K i to_send b x rule: tx_copy.induct)
  case (1 K i to_send tx_buf x)
  show ?case
  proof (cases "i < to_send")
    case True
    have m: "ttyc K UART_XMIT_SIZE - 1 = mask n"
      using "1.prems"(1) by (simp add: mask_eq_decr_exp)
    have "snd (tx_copy K i to_send tx_buf x) =
          snd (tx_copy K (i + 1) to_send (tx_buf[unat i := buf x ! unat (tail x)])
                 (x\<lparr>tail := (tail x + 1) AND mask n\<rparr>))"
      using True by (subst tx_copy.simps) (simp add: m)
    also have "\<dots> = (x\<lparr>tail := (tail x + 1) AND mask n\<rparr>)
                     \<lparr>tail := (((tail x + 1) AND mask n) + (to_send - (i + 1))) AND mask n\<rparr>"
      using "1.IH" [OF True] "1.prems"(1) True m by (simp add: inc_le32 and.assoc)
    also have "\<dots> = x\<lparr>tail := (tail x + (to_send - i)) AND mask n\<rparr>"
      by (simp add: mask_eqs)
    finally show ?thesis .
  next
    case False
    with "1.prems" have "i = to_send" by simp
    with "1.prems" show ?thesis
      by (subst tx_copy.simps) simp
  qed
qed


lemma handle_tx_block_room:
  assumes "ttyc K UART_XMIT_SIZE = 2 ^ n" and "tail (xmit s) AND mask n = tail (xmit s)"
    and "tx_headroom s \<noteq> 0" and "tx_headroom s \<le> 128"
  shows "handle_tx_block K to_send s =
           (s\<lparr>bus_seq := Suc (Suc (bus_seq s)),
              icount := (icount s)\<lparr>tx := tx (icount s) + min to_send (tx_headroom s)\<rparr>,
              xmit := (xmit s)\<lparr>tail := (tail (xmit s) + min to_send (tx_headroom s))
                                        AND mask n\<rparr>,
              trace := trace s
                @ [BusRead MCA_REG_UART_TXLVL,
                   BusBulkWrite MCA_REG_UART_THR
                     (take (unat (min to_send (tx_headroom s)))
                        (fst (tx_copy K 0 (min to_send (tx_headroom s))
                                (replicate (unat MCA_UART_TX_FIFO_SIZE) 0) (xmit s))))]
                @ (if r_ret (bus s (Suc (bus_seq s))) \<noteq> 0
                   then [Log Err ''Failed to write MCA_REG_UART_THR''] else [])\<rparr>, False)"
proof -
  have ok: "r_ret (bus s (bus_seq s)) = 0" and v: "r_val (bus s (bus_seq s)) = tx_headroom s"
    using assms(3) by (auto simp add: tx_headroom_def split: if_splits)
  have m: "(if tx_headroom s < to_send then tx_headroom s else to_send)
           = min to_send (tx_headroom s)"
    by (auto simp add: min_def)
  have c: "snd (tx_copy K 0 k b (xmit s)) = (xmit s)\<lparr>tail := (tail (xmit s) + k) AND mask n\<rparr>"
    for k b
    using tx_copy_snd [OF assms(1) _ assms(2), of 0 k b] by simp
  show ?thesis
    using assms(3,4)
    by (simp add: handle_tx_block_def bus_eqs Let_def split_def ok v m c
        MCA_UART_TX_FIFO_SIZE_def not_less)
qed


lemma xmit_nonempty_pending:
  assumes "ttyc K UART_XMIT_SIZE = 2 ^ n" and "head c < 2 ^ n" and "tail c < 2 ^ n"
    and "\<not> uart_circ_empty c"
  shows "uart_circ_chars_pending K c \<noteq> 0"
proof
  assume "uart_circ_chars_pending K c = 0"
  then have z: "(head c - tail c) AND mask n = 0"
    using assms(1) by (simp add: uart_circ_chars_pending_def mask_eq_decr_exp)
  have ht: "head c = head c AND mask n" "tail c = tail c AND mask n"
    using assms(2,3) by (simp_all add: less_mask_eq)
  then have "head c = (tail c + (head c - tail c)) AND mask n" by simp
  also have "\<dots> = (tail c + ((head c - tail c) AND mask n)) AND mask n"
    by (simp only: mask_eqs)
  also have "\<dots> = tail c" using z ht(2) by simp
  finally show False using assms(4) by (simp add: uart_circ_empty_def)
qed

lemma masked_pending_sub:
  assumes "ttyc K UART_XMIT_SIZE = 2 ^ n" and "k \<le> uart_circ_chars_pending K c"
  shows "uart_circ_chars_pending K (c\<lparr>tail := (tail c + k) AND mask n\<rparr>) =
         uart_circ_chars_pending K c - k"
proof -
  have m: "ttyc K UART_XMIT_SIZE - 1 = mask n"
    using assms(1) by (simp add: mask_eq_decr_exp)
  have "(head c - ((tail c + k) AND mask n)) AND mask n = (head c - tail c - k) AND mask n"
    by (simp add: mask_eqs diff_diff_eq)
  also have "\<dots> = ((head c - tail c) AND mask n) - k"
    using assms(2) by (intro masked_sub) (simp add: uart_circ_chars_pending_def m)
  finally show ?thesis
    by (simp add: uart_circ_chars_pending_def m)
qed

lemma handle_tx_room:
  assumes "tty s" and "\<not> uart_circ_empty (xmit s)" and "\<not> tx_stopped s"
    and "uart_circ_chars_pending K (xmit s) \<noteq> 0"
    and "ttyc K UART_XMIT_SIZE = 2 ^ n" and "tail (xmit s) AND mask n = tail (xmit s)"
    and "tx_headroom s \<noteq> 0" and "tx_headroom s \<le> 128"
    and "k = min (uart_circ_chars_pending K (xmit s)) (tx_headroom s)"
  shows "mca_uart_handle_tx K s =
           s\<lparr>bus_seq := Suc (Suc (bus_seq s)),
             icount := (icount s)\<lparr>tx := tx (icount s) + k\<rparr>,
             xmit := (xmit s)\<lparr>tail := (tail (xmit s) + k) AND mask n\<rparr>,
             trace := trace s
               @ [BusRead MCA_REG_UART_TXLVL,
                  BusBulkWrite MCA_REG_UART_THR
                    (take (unat k)
                       (fst (tx_copy K 0 k (replicate (unat MCA_UART_TX_FIFO_SIZE) 0) (xmit s))))]
               @ (if r_ret (bus s (Suc (bus_seq s))) \<noteq> 0
                  then [Log Err ''Failed to write MCA_REG_UART_THR''] else [])
               @ (if uart_circ_chars_pending K (xmit s) - k < ttyc K WAKEUP_CHARS
                  then [WriteWakeup] else [])\<rparr>"
proof -
  have le: "k \<le> uart_circ_chars_pending K (xmit s)"
    by (simp add: assms(9))
  show ?thesis
    using assms(1-4) masked_pending_sub [OF assms(5) le]
    by (simp add: mca_uart_handle_tx_def handle_tx_block_room [OF assms(5-8)] assms(9) Let_def
        uart_write_wakeup_def emit_eq)
qed

text \<open>
  C5, as amended. A run of the TX engine that passes the activity checks, on a well-formed
  transmit buffer (a power-of-two size, head and tail below it), moves the tail by
  \<open>tx_advance\<close> bytes modulo the buffer size and adds that number to the transmitted
  byte counter; the pending count drops by it. That number is min(pending, headroom) when
  the headroom is at most the staging capacity 128, and 0 when the headroom exceeds it
  (with headroom 0 for a failed read): the code does not cap the headroom at 128, it
  refuses a larger one.
\<close>

theorem tx_tail_advance:
  assumes "tty s" and "\<not> uart_circ_empty (xmit s)" and "\<not> tx_stopped s"
    and "ttyc K UART_XMIT_SIZE = 2 ^ n"
    and "head (xmit s) < ttyc K UART_XMIT_SIZE" and "tail (xmit s) < ttyc K UART_XMIT_SIZE"
  shows "tail (xmit (mca_uart_handle_tx K s)) =
           (tail (xmit s) + tx_advance K s) AND (ttyc K UART_XMIT_SIZE - 1)
       \<and> head (xmit (mca_uart_handle_tx K s)) = head (xmit s)
       \<and> uart_circ_chars_pending K (xmit (mca_uart_handle_tx K s)) =
           uart_circ_chars_pending K (xmit s) - tx_advance K s
       \<and> tx (icount (mca_uart_handle_tx K s)) = tx (icount s) + tx_advance K s"
proof -
  let ?p = "uart_circ_chars_pending K (xmit s)"
  have m: "ttyc K UART_XMIT_SIZE - 1 = mask n"
    using assms(4) by (simp add: mask_eq_decr_exp)
  have t: "tail (xmit s) AND mask n = tail (xmit s)"
    using assms(4,6) by (simp add: less_mask_eq)
  have p: "?p \<noteq> 0"
    using xmit_nonempty_pending [OF assms(4) _ _ assms(2)] assms(4,5,6) by simp
  consider (none) "tx_headroom s = 0 \<or> 128 < tx_headroom s"
    | (room) "tx_headroom s \<noteq> 0" "tx_headroom s \<le> 128"
    by fastforce
  then show ?thesis
  proof cases
    case none
    then have a: "tx_advance K s = 0"
      by (auto simp add: tx_advance_def MCA_UART_TX_FIFO_SIZE_def)
    show ?thesis
      using handle_tx_no_room [OF assms(1-3) p none] t
      by (simp add: a m)
  next
    case room
    then have a: "tx_advance K s = min ?p (tx_headroom s)"
      by (simp add: tx_advance_def MCA_UART_TX_FIFO_SIZE_def)
    have le: "tx_advance K s \<le> ?p" by (simp add: a)
    show ?thesis
      using masked_pending_sub [OF assms(4) le]
      by (simp add: handle_tx_room [OF assms(1-3) p assms(4) t room a] m)
  qed
qed


theorem tx_tail_advance_witness:
  "tail (xmit (mca_uart_handle_tx sample_hdr (idle_port [reply_val 3, reply_ok] 5 0))) = 3
   \<and> uart_circ_chars_pending sample_hdr
        (xmit (mca_uart_handle_tx sample_hdr (idle_port [reply_val 3, reply_ok] 5 0))) = 2
   \<and> tx (icount (mca_uart_handle_tx sample_hdr (idle_port [reply_val 3, reply_ok] 5 0))) = 3"
proof -
  let ?s = "idle_port [reply_val 3, reply_ok] 5 0"
  have a: "tty ?s" "\<not> uart_circ_empty (xmit ?s)" "\<not> tx_stopped ?s"
    "ttyc sample_hdr UART_XMIT_SIZE = 2 ^ 12"
    "head (xmit ?s) < ttyc sample_hdr UART_XMIT_SIZE"
    "tail (xmit ?s) < ttyc sample_hdr UART_XMIT_SIZE"
    by (simp_all add: idle_port_def uart_circ_empty_def sample_hdr_def)
  have b: "tx_advance sample_hdr ?s = 3"
    by (simp add: tx_advance_def tx_headroom_def uart_circ_chars_pending_def idle_port_def
        scripted_def reply_val_def sample_hdr_def MCA_UART_TX_FIFO_SIZE_def)
  have c: "tail (xmit ?s) = 0" "tx (icount ?s) = 0"
    "uart_circ_chars_pending sample_hdr (xmit ?s) = 5"
    by (simp_all add: idle_port_def uart_circ_chars_pending_def sample_hdr_def)
  have d: "ttyc sample_hdr UART_XMIT_SIZE = 4096"
    by (simp add: sample_hdr_def)
  show ?thesis
    using tx_tail_advance [OF a] by (simp add: b c d)
qed

text \<open>
  The claim C5 as stated fails where the free-space register reads 200 with 5 bytes
  pending: min(5, min(200, 128)) is 5, and the run moves neither the tail nor the counter.
\<close>

theorem tx_tail_advance_counterexample:
  "tty (idle_port [reply_val 200] 5 0)
   \<and> \<not> uart_circ_empty (xmit (idle_port [reply_val 200] 5 0))
   \<and> \<not> tx_stopped (idle_port [reply_val 200] 5 0)
   \<and> uart_circ_chars_pending sample_hdr (xmit (idle_port [reply_val 200] 5 0)) = 5
   \<and> r_ret (bus (idle_port [reply_val 200] 5 0) 0) = 0
   \<and> r_val (bus (idle_port [reply_val 200] 5 0) 0) = 200
   \<and> tail (xmit (mca_uart_handle_tx sample_hdr (idle_port [reply_val 200] 5 0))) \<noteq>
       (tail (xmit (idle_port [reply_val 200] 5 0)) + min 5 (min 200 128))
         AND (ttyc sample_hdr UART_XMIT_SIZE - 1)
   \<and> tx (icount (mca_uart_handle_tx sample_hdr (idle_port [reply_val 200] 5 0))) \<noteq>
       tx (icount (idle_port [reply_val 200] 5 0)) + min 5 (min 200 128)"
proof -
  let ?s = "idle_port [reply_val 200] 5 0"
  have a: "tty ?s" "\<not> uart_circ_empty (xmit ?s)" "\<not> tx_stopped ?s"
    "uart_circ_chars_pending sample_hdr (xmit ?s) \<noteq> 0"
    by (simp_all add: idle_port_def uart_circ_empty_def uart_circ_chars_pending_def
        sample_hdr_def)
  have b: "tx_headroom ?s = 0 \<or> 128 < tx_headroom ?s"
    by (simp add: tx_headroom_def idle_port_def scripted_def reply_val_def)
  have c: "xmit (mca_uart_handle_tx sample_hdr ?s) = xmit ?s"
    "icount (mca_uart_handle_tx sample_hdr ?s) = icount ?s"
    by (simp_all add: handle_tx_no_room [OF a b])
  show ?thesis
    by (simp add: c) (simp add: idle_port_def uart_circ_empty_def uart_circ_chars_pending_def
        sample_hdr_def scripted_def reply_val_def)
qed

subsection \<open>Reconfiguration: the baud rate\<close>

lemma baud_switch_eq:
  "baud_switch K b s =
     (baud_reg_value K b,
      s\<lparr>trace := trace s @ (if b \<in> fst ` set supported_bauds then []
                             else [Log Warn ''Baud rate %d not supported, using default %d''])\<rparr>)"
  by (simp add: baud_switch_def baud_reg_value_def supported_bauds_def dev_warn_def emit_eq
      MCA_UART_DEFAULT_BAUD_REG_def)

lemma set_termios_eq:
  "mca_uart_set_termios K get_baud termios s =
     (let (t, cfg1, st) = set_termios_flags K (has_rtscts s) termios (status s);
          (b, t') = get_baud t
      in if r_ret (bus s (bus_seq s)) \<noteq> 0 then
           (t, s\<lparr>status := st, bus_seq := Suc (bus_seq s),
                 trace := trace s @ [Log Dbg ''<mca_uart_set_termios>'',
                                     BusWrite MCA_REG_UART_CFG1 cfg1,
                                     Log Err ''Failed to write MCA_REG_UART_CFG1'']\<rparr>)
         else
           (t', s\<lparr>status := st, bus_seq := Suc (Suc (bus_seq s)),
                  trace := trace s @ [Log Dbg ''<mca_uart_set_termios>'',
                                      BusWrite MCA_REG_UART_CFG1 cfg1,
                                      GetBaudRate b, UpdateTimeout (c_cflag t') b]
                    @ (if b \<in> fst ` set supported_bauds then []
                       else [Log Warn ''Baud rate %d not supported, using default %d''])
                    @ [BusWrite MCA_REG_UART_BAUD (baud_reg_value K b)]
                    @ (if r_ret (bus s (Suc (bus_seq s))) \<noteq> 0
                       then [Log Err ''Failed to write MCA_REG_UART_BAUD''] else [])\<rparr>))"
  by (simp add: mca_uart_set_termios_def baud_switch_eq bus_eqs dev_dbg_def dev_err_def emit_eq
      Let_def split_def)

lemma baud_reg_value_table:
  "baud_reg_value K 1200 = mca K MCA_REG_UART_BAUD_1200"
  "baud_reg_value K 2400 = mca K MCA_REG_UART_BAUD_2400"
  "baud_reg_value K 4800 = mca K MCA_REG_UART_BAUD_4800"
  "baud_reg_value K 9600 = mca K MCA_REG_UART_BAUD_9600"
  "baud_reg_value K 19200 = mca K MCA_REG_UART_BAUD_19200"
  "baud_reg_value K 38400 = mca K MCA_REG_UART_BAUD_38400"
  "baud_reg_value K 57600 = mca K MCA_REG_UART_BAUD_57600"
  "baud_reg_value K 115200 = mca K MCA_REG_UART_BAUD_115200"
  "baud_reg_value K 230400 = mca K MCA_REG_UART_BAUD_230400"
  by (simp_all add: baud_reg_value_def supported_bauds_def)

lemma supported_bauds_set:
  "fst ` set supported_bauds = {1200, 2400, 4800, 9600, 19200, 38400, 57600, 115200, 230400}"
  by (simp add: supported_bauds_def)

lemma baud_reg_value_default:
  assumes "b \<notin> {1200, 2400, 4800, 9600, 19200, 38400, 57600, 115200, 230400}"
  shows "baud_reg_value K b = mca K MCA_REG_UART_BAUD_9600"
proof -
  from assms have "map_of supported_bauds b = None"
    unfolding supported_bauds_set [symmetric] by (metis map_of_eq_None_iff)
  then show ?thesis
    by (simp add: baud_reg_value_def)
qed

lemma set_termios_events:
  assumes "set_termios_flags K (has_rtscts s) termios (status s) = (t, cfg1, st)"
    and "get_baud t = (b, t')"
  shows "new_events s (snd (mca_uart_set_termios K get_baud termios s)) =
           (if r_ret (bus s (bus_seq s)) \<noteq> 0 then
              [Log Dbg ''<mca_uart_set_termios>'', BusWrite MCA_REG_UART_CFG1 cfg1,
               Log Err ''Failed to write MCA_REG_UART_CFG1'']
            else
              [Log Dbg ''<mca_uart_set_termios>'', BusWrite MCA_REG_UART_CFG1 cfg1,
               GetBaudRate b, UpdateTimeout (c_cflag t') b]
              @ (if b \<in> {1200, 2400, 4800, 9600, 19200, 38400, 57600, 115200, 230400} then []
                 else [Log Warn ''Baud rate %d not supported, using default %d''])
              @ [BusWrite MCA_REG_UART_BAUD (baud_reg_value K b)]
              @ (if r_ret (bus s (Suc (bus_seq s))) \<noteq> 0
                 then [Log Err ''Failed to write MCA_REG_UART_BAUD''] else []))"
  using assms unfolding supported_bauds_set [symmetric]
  by (simp add: set_termios_eq new_events_def)

lemma sample_termios_flags:
  "set_termios_flags sample_hdr (has_rtscts (idle_port rs 0 0)) \<lparr>c_iflag = 0, c_cflag = 0\<rparr>
     (status (idle_port rs 0 0)) = (\<lparr>c_iflag = 0, c_cflag = 0x30\<rparr>, 0, 0)"
  by (simp add: set_termios_flags_def sample_hdr_def idle_port_def Let_def)

text \<open>
  C8, as amended. Let \<open>cfg1\<close> be the configuration value and \<open>t\<close> the settings the
  call computes from the requested ones, and \<open>b\<close> the baud rate that
  \<open>uart_get_baud_rate\<close> negotiates for \<open>t\<close>. A reconfigure call whose write of the
  configuration register succeeds does exactly this, in this order: it writes the
  configuration register, negotiates \<open>b\<close>, updates the timeout, logs a warning if and
  only if \<open>b\<close> is none of the nine supported rates, writes the baud-select register
  once, and logs an error if and only if that write fails. The value written is the one
  that matches \<open>b\<close> for each of the nine rates and the one of the default rate 9600 for
  any other \<open>b\<close>; the mapping itself produces no error. A call whose write of the
  configuration register fails logs the failure and returns: it negotiates no baud rate
  and writes no baud-select register.
\<close>

theorem set_termios_baud:
  assumes "set_termios_flags K (has_rtscts s) termios (status s) = (t, cfg1, st)"
    and "get_baud t = (b, t')"
  shows "(r_ret (bus s (bus_seq s)) = 0 \<longrightarrow>
            new_events s (snd (mca_uart_set_termios K get_baud termios s)) =
              [Log Dbg ''<mca_uart_set_termios>'', BusWrite MCA_REG_UART_CFG1 cfg1,
               GetBaudRate b, UpdateTimeout (c_cflag t') b]
              @ (if b \<in> {1200, 2400, 4800, 9600, 19200, 38400, 57600, 115200, 230400} then []
                 else [Log Warn ''Baud rate %d not supported, using default %d''])
              @ [BusWrite MCA_REG_UART_BAUD (baud_reg_value K b)]
              @ (if r_ret (bus s (Suc (bus_seq s))) \<noteq> 0
                 then [Log Err ''Failed to write MCA_REG_UART_BAUD''] else []))
       \<and> (r_ret (bus s (bus_seq s)) \<noteq> 0 \<longrightarrow>
            new_events s (snd (mca_uart_set_termios K get_baud termios s)) =
              [Log Dbg ''<mca_uart_set_termios>'', BusWrite MCA_REG_UART_CFG1 cfg1,
               Log Err ''Failed to write MCA_REG_UART_CFG1''])
       \<and> (b = 1200 \<longrightarrow> baud_reg_value K b = mca K MCA_REG_UART_BAUD_1200)
       \<and> (b = 2400 \<longrightarrow> baud_reg_value K b = mca K MCA_REG_UART_BAUD_2400)
       \<and> (b = 4800 \<longrightarrow> baud_reg_value K b = mca K MCA_REG_UART_BAUD_4800)
       \<and> (b = 9600 \<longrightarrow> baud_reg_value K b = mca K MCA_REG_UART_BAUD_9600)
       \<and> (b = 19200 \<longrightarrow> baud_reg_value K b = mca K MCA_REG_UART_BAUD_19200)
       \<and> (b = 38400 \<longrightarrow> baud_reg_value K b = mca K MCA_REG_UART_BAUD_38400)
       \<and> (b = 57600 \<longrightarrow> baud_reg_value K b = mca K MCA_REG_UART_BAUD_57600)
       \<and> (b = 115200 \<longrightarrow> baud_reg_value K b = mca K MCA_REG_UART_BAUD_115200)
       \<and> (b = 230400 \<longrightarrow> baud_reg_value K b = mca K MCA_REG_UART_BAUD_230400)
       \<and> (b \<notin> {1200, 2400, 4800, 9600, 19200, 38400, 57600, 115200, 230400} \<longrightarrow>
            baud_reg_value K b = MCA_UART_DEFAULT_BAUD_REG K
            \<and> MCA_UART_DEFAULT_BAUD_REG K = mca K MCA_REG_UART_BAUD_9600)"
  using set_termios_events [where get_baud = get_baud, OF assms] baud_reg_value_default [of b K]
  by (simp add: baud_reg_value_table MCA_UART_DEFAULT_BAUD_REG_def)

theorem set_termios_baud_witness:
  "new_events (idle_port [reply_ok, reply_ok] 0 0)
     (snd (mca_uart_set_termios sample_hdr (Pair 115200) \<lparr>c_iflag = 0, c_cflag = 0\<rparr>
             (idle_port [reply_ok, reply_ok] 0 0))) =
     [Log Dbg ''<mca_uart_set_termios>'', BusWrite MCA_REG_UART_CFG1 0, GetBaudRate 115200,
      UpdateTimeout 0x30 115200, BusWrite MCA_REG_UART_BAUD 7]
   \<and> new_events (idle_port [reply_ok, reply_ok] 0 0)
     (snd (mca_uart_set_termios sample_hdr (Pair 4000) \<lparr>c_iflag = 0, c_cflag = 0\<rparr>
             (idle_port [reply_ok, reply_ok] 0 0))) =
     [Log Dbg ''<mca_uart_set_termios>'', BusWrite MCA_REG_UART_CFG1 0, GetBaudRate 4000,
      UpdateTimeout 0x30 4000, Log Warn ''Baud rate %d not supported, using default %d'',
      BusWrite MCA_REG_UART_BAUD 3]
   \<and> new_events (idle_port [reply_fail] 0 0)
     (snd (mca_uart_set_termios sample_hdr (Pair 9600) \<lparr>c_iflag = 0, c_cflag = 0\<rparr>
             (idle_port [reply_fail] 0 0))) =
     [Log Dbg ''<mca_uart_set_termios>'', BusWrite MCA_REG_UART_CFG1 0,
      Log Err ''Failed to write MCA_REG_UART_CFG1'']"
proof -
  have r: "r_ret (bus (idle_port [reply_ok, reply_ok] 0 0)
                   (bus_seq (idle_port [reply_ok, reply_ok] 0 0))) = 0"
    "r_ret (bus (idle_port [reply_ok, reply_ok] 0 0)
                   (Suc (bus_seq (idle_port [reply_ok, reply_ok] 0 0)))) = 0"
    "r_ret (bus (idle_port [reply_fail] 0 0) (bus_seq (idle_port [reply_fail] 0 0))) \<noteq> 0"
    by (simp_all add: idle_port_def scripted_def reply_ok_def reply_val_def reply_fail_def)
  have g: "Pair b \<lparr>c_iflag = 0, c_cflag = 0x30\<rparr> = (b, \<lparr>c_iflag = 0, c_cflag = 0x30\<rparr>)"
    for b :: u32
    by simp
  have v: "baud_reg_value sample_hdr 115200 = 7" "baud_reg_value sample_hdr 4000 = 3"
    by (simp_all add: baud_reg_value_def supported_bauds_def sample_hdr_def)
  show ?thesis
    using set_termios_baud [where get_baud = "Pair 115200", OF sample_termios_flags g,
          of "[reply_ok, reply_ok]"]
      set_termios_baud [where get_baud = "Pair 4000", OF sample_termios_flags g,
          of "[reply_ok, reply_ok]"]
      set_termios_baud [where get_baud = "Pair 9600", OF sample_termios_flags g,
          of "[reply_fail]"]
    by (simp add: r v)
qed

text \<open>
  The claim C8 as stated fails for a reconfigure call that asks for the supported rate
  9600 while the write of the configuration register fails: the only bus transaction of
  the call is that write, and the baud-select register is not written.
\<close>

theorem set_termios_baud_counterexample:
  "fst (Pair 9600 \<lparr>c_iflag = 0, c_cflag = 0x30\<rparr>) = (9600 :: u32)
   \<and> r_ret (bus (idle_port [reply_fail] 0 0) (bus_seq (idle_port [reply_fail] 0 0))) \<noteq> 0
   \<and> filter is_bus_op
        (trace (snd (mca_uart_set_termios sample_hdr (Pair 9600) \<lparr>c_iflag = 0, c_cflag = 0\<rparr>
                       (idle_port [reply_fail] 0 0)))) =
      [BusWrite MCA_REG_UART_CFG1 0]"
proof -
  have r: "r_ret (bus (idle_port [reply_fail] 0 0) (bus_seq (idle_port [reply_fail] 0 0))) \<noteq> 0"
    "trace (idle_port [reply_fail] 0 0) = []"
    by (simp_all add: idle_port_def scripted_def reply_fail_def)
  have g: "Pair (9600 :: u32) \<lparr>c_iflag = 0, c_cflag = 0x30\<rparr>
           = (9600, \<lparr>c_iflag = 0, c_cflag = 0x30\<rparr>)"
    by simp
  show ?thesis
    using set_termios_events [where get_baud = "Pair 9600", OF sample_termios_flags g,
        of "[reply_fail]"] r
    by (simp add: new_events_def)
qed

subsection \<open>The RX engine: the loop\<close>

lemma uart_handle_sysrq_char_eq:
  "uart_handle_sysrq_char ch s =
     (sysrq s ch, s\<lparr>trace := trace s @ (if sysrq s ch then [SysrqChar ch] else [])\<rparr>)"
  by (simp add: uart_handle_sysrq_char_def emit_eq)

lemma tty_insert_flip_char_eq:
  "tty_insert_flip_char ch flag s =
     (if flip_room s = 0 then (0, s)
      else (1, s\<lparr>flip := flip s @ [(ch, flag)], flip_room := flip_room s - 1,
                trace := trace s @ [FlipInsert ch flag]\<rparr>))"
  by (simp add: tty_insert_flip_char_def emit_eq)

lemma rx_error_switch_frame:
  "flip (snd (rx_error_switch K e s)) = flip s"
  "flip_room (snd (rx_error_switch K e s)) = flip_room s"
  "sysrq (snd (rx_error_switch K e s)) = sysrq s"
  "trace (snd (rx_error_switch K e s)) = trace s"
  "rx (icount (snd (rx_error_switch K e s))) = rx (icount s)"
  by (simp_all add: rx_error_switch_def)


text \<open>One iteration of the loop, with the calls it makes written out.\<close>

lemma rx_loop_unfold:
  "rx_loop K has_errors rx_buf error_buf i rxlen flag s =
     (if \<not> i < rxlen then s
      else if sysrq s (rx_buf ! unat i) then
        rx_loop K has_errors rx_buf error_buf (i + 1) rxlen flag
          (s\<lparr>trace := trace s @ [SysrqChar (rx_buf ! unat i)]\<rparr>)
      else if flip_room s = 0 then
        (if has_errors then snd (rx_error_switch K (error_buf ! unat i) s) else s)
          \<lparr>icount := (icount (if has_errors then snd (rx_error_switch K (error_buf ! unat i) s)
                                else s))
                       \<lparr>overrun := overrun (icount (if has_errors
                                       then snd (rx_error_switch K (error_buf ! unat i) s)
                                       else s)) + 1\<rparr>,
           trace := trace s @ [Log Err ''tty_insert_flip_char failed for %x'']\<rparr>
      else
        rx_loop K has_errors rx_buf error_buf (i + 1) rxlen
          (if has_errors then fst (rx_error_switch K (error_buf ! unat i) s) else flag)
          ((if has_errors then snd (rx_error_switch K (error_buf ! unat i) s) else s)
             \<lparr>flip := flip s @ [(rx_buf ! unat i,
                                  if has_errors then fst (rx_error_switch K (error_buf ! unat i) s)
                                  else flag)],
              flip_room := flip_room s - 1,
              trace := trace s @ [FlipInsert (rx_buf ! unat i)
                                   (if has_errors
                                    then fst (rx_error_switch K (error_buf ! unat i) s)
                                    else flag)]\<rparr>))"
  by (subst rx_loop.simps)
     (simp add: uart_handle_sysrq_char_eq tty_insert_flip_char_eq dev_err_def emit_eq Let_def
        split_def rx_error_switch_frame)

lemma loop_measure:
  fixes i n :: u32
  assumes "Suc k = unat n - unat i"
  shows "i < n" and "k = unat n - unat (i + 1)"
proof -
  from assms show lt: "i < n"
    by (simp add: word_less_nat_alt)
  then have "unat (i + 1) = Suc (unat i)"
    by unat_arith
  with assms show "k = unat n - unat (i + 1)"
    by simp
qed

lemma loop_done:
  fixes i n :: u32
  assumes "0 = unat n - unat i"
  shows "\<not> i < n"
  using assms by (simp add: word_less_nat_alt)

lemma rx_loop_flushes:
  "count_list (trace (rx_loop K has_errors rx_buf error_buf i rxlen flag s)) FlipPush =
   count_list (trace s) FlipPush"
proof (induction "unat rxlen - unat i" arbitrary: i flag s)
  case 0
  then show ?case
    by (subst rx_loop_unfold) (simp add: loop_done)
next
  case (Suc k)
  note m = loop_measure [OF Suc.hyps(2)]
  show ?case
    by (subst rx_loop_unfold)
       (simp add: m(1) Suc.hyps(1) [OF m(2)] rx_error_switch_frame)
qed


lemma rx_loop_bus_ops:
  "filter is_bus_op (trace (rx_loop K has_errors rx_buf error_buf i rxlen flag s)) =
   filter is_bus_op (trace s)"
proof (induction "unat rxlen - unat i" arbitrary: i flag s)
  case 0
  then show ?case
    by (subst rx_loop_unfold) (simp add: loop_done)
next
  case (Suc k)
  note m = loop_measure [OF Suc.hyps(2)]
  show ?case
    by (subst rx_loop_unfold)
       (simp add: m(1) Suc.hyps(1) [OF m(2)] rx_error_switch_frame)
qed





lemma rx_read_errors_eq:
  "rx_read_errors K has_errors rxlen s =
     (if \<not> has_errors then ((True, False, []), s)
      else if r_ret (bus s (bus_seq s)) \<noteq> 0 then
        ((False, True, []),
         s\<lparr>bus_seq := Suc (bus_seq s),
           trace := trace s @ [BusRead MCA_REG_UART_LSR,
                               Log Err ''Failed to read MCA_REG_UART_LSR'']\<rparr>)
      else if r_val (bus s (bus_seq s)) = 0 then
        ((True, False, []),
         s\<lparr>bus_seq := Suc (bus_seq s), trace := trace s @ [BusRead MCA_REG_UART_LSR]\<rparr>)
      else if r_ret (bus s (Suc (bus_seq s))) \<noteq> 0 then
        ((False, True, []),
         s\<lparr>bus_seq := Suc (Suc (bus_seq s)),
           trace := trace s @ [BusRead MCA_REG_UART_LSR,
                               BusBulkRead MCA_REG_UART_RX_ERRORS rxlen,
                               Log Err ''Failed to read MCA_REG_UART_RX_ERRORS'']\<rparr>)
      else if MCA_UART_RX_FIFO_SIZE < rxlen then
        ((False, True, map (r_data (bus s (Suc (bus_seq s)))) [0..<unat rxlen]),
         s\<lparr>bus_seq := Suc (Suc (bus_seq s)), fault := True,
           trace := trace s @ [BusRead MCA_REG_UART_LSR,
                               BusBulkRead MCA_REG_UART_RX_ERRORS rxlen]\<rparr>)
      else
        ((True, True, map (r_data (bus s (Suc (bus_seq s)))) [0..<unat rxlen]),
         s\<lparr>bus_seq := Suc (Suc (bus_seq s)),
           trace := trace s @ [BusRead MCA_REG_UART_LSR,
                               BusBulkRead MCA_REG_UART_RX_ERRORS rxlen]\<rparr>))"
  by (simp add: rx_read_errors_def bus_eqs dev_err_def emit_eq Let_def)

subsection \<open>The RX engine: the paths of a run\<close>

lemma rx_read_data_first_ok:
  assumes "r_ret (bus s (bus_seq s)) = 0"
  shows "rx_read_data K has_errors error_buf rxlen s =
     (if MCA_UART_RX_FIFO_SIZE < rxlen then
        s\<lparr>bus_seq := Suc (bus_seq s), fault := True,
          trace := trace s @ [BusBulkRead MCA_REG_UART_RHR rxlen]\<rparr>
      else
        tty_flip_buffer_push
          (rx_loop K has_errors (map (r_data (bus s (bus_seq s))) [0..<unat rxlen]) error_buf
             0 rxlen TTY_NORMAL
             (s\<lparr>bus_seq := Suc (bus_seq s),
                trace := trace s @ [BusBulkRead MCA_REG_UART_RHR rxlen],
                icount := (icount s)\<lparr>rx := rx (icount s) + rxlen\<rparr>\<rparr>)))"
  using assms
  by (simp add: rx_read_data_def bus_eqs Let_def)

lemma rx_read_data_retry_ok:
  assumes "r_ret (bus s (bus_seq s)) \<noteq> 0" and "r_ret (bus s (Suc (bus_seq s))) = 0"
  shows "rx_read_data K has_errors error_buf rxlen s =
     (if MCA_UART_RX_FIFO_SIZE < rxlen then
        s\<lparr>bus_seq := Suc (Suc (bus_seq s)), fault := True,
          trace := trace s @ [BusBulkRead MCA_REG_UART_RHR rxlen,
                              Log Warn ''Failed to read MCA_REG_UART_RHR %d, retrying'',
                              BusBulkRead MCA_REG_UART_RHR rxlen]\<rparr>
      else
        tty_flip_buffer_push
          (rx_loop K has_errors (map (r_data (bus s (Suc (bus_seq s)))) [0..<unat rxlen])
             error_buf 0 rxlen TTY_NORMAL
             (s\<lparr>bus_seq := Suc (Suc (bus_seq s)),
                trace := trace s @ [BusBulkRead MCA_REG_UART_RHR rxlen,
                              Log Warn ''Failed to read MCA_REG_UART_RHR %d, retrying'',
                              BusBulkRead MCA_REG_UART_RHR rxlen],
                icount := (icount s)\<lparr>rx := rx (icount s) + rxlen\<rparr>\<rparr>)))"
  using assms
  by (simp add: rx_read_data_def bus_eqs dev_warn_def emit_eq Let_def)

lemma rx_read_data_failed_twice:
  assumes "r_ret (bus s (bus_seq s)) \<noteq> 0" and "r_ret (bus s (Suc (bus_seq s))) \<noteq> 0"
  shows "rx_read_data K has_errors error_buf rxlen s =
     s\<lparr>bus_seq := Suc (Suc (bus_seq s)),
       trace := trace s @ [BusBulkRead MCA_REG_UART_RHR rxlen,
                           Log Warn ''Failed to read MCA_REG_UART_RHR %d, retrying'',
                           BusBulkRead MCA_REG_UART_RHR rxlen,
                           Log Err ''Failed to read MCA_REG_UART_RHR %d'',
                           FlipPush]\<rparr>"
  using assms
  by (simp add: rx_read_data_def bus_eqs dev_warn_def dev_err_def emit_eq Let_def
      tty_flip_buffer_push_def)


lemma flushes_simps:
  "flushes (s\<lparr>trace := t\<rparr>) = count_list t FlipPush"
  "flushes (tty_flip_buffer_push s) = Suc (flushes s)"
  "flushes (rx_loop K has_errors rx_buf error_buf i rxlen flag s) = flushes s"
  by (simp_all add: flushes_def tty_flip_buffer_push_def emit_eq rx_loop_flushes)

lemma rx_read_data_flushes:
  "flushes (rx_read_data K has_errors error_buf rxlen s) =
     flushes s
     + (if (r_ret (bus s (bus_seq s)) = 0 \<or> r_ret (bus s (Suc (bus_seq s))) = 0)
           \<and> MCA_UART_RX_FIFO_SIZE < rxlen then 0 else 1)"
proof (cases "r_ret (bus s (bus_seq s)) = 0")
  case True
  then show ?thesis
    by (simp add: rx_read_data_first_ok flushes_simps) (simp add: flushes_def)
next
  case False
  show ?thesis
  proof (cases "r_ret (bus s (Suc (bus_seq s))) = 0")
    case True
    with False show ?thesis
      by (simp add: rx_read_data_retry_ok flushes_simps) (simp add: flushes_def)
  next
    case f2: False
    with False show ?thesis
      by (simp add: rx_read_data_failed_twice flushes_def)
  qed
qed

lemma handle_rx_level_failed:
  assumes "r_ret (bus s (bus_seq s)) \<noteq> 0"
  shows "mca_uart_handle_rx K has_errors s =
           s\<lparr>bus_seq := Suc (bus_seq s),
             trace := trace s @ [Log Dbg ''<mca_uart_handle_rx>'', BusRead MCA_REG_UART_RXLVL,
                                 Log Err ''Failed to read MCA_REG_UART_RXLVL'']\<rparr>"
  using assms
  by (simp add: mca_uart_handle_rx_def bus_eqs dev_dbg_def dev_err_def emit_eq Let_def)

lemma handle_rx_nothing_queued:
  assumes "r_ret (bus s (bus_seq s)) = 0" and "rx_level s = 0"
  shows "mca_uart_handle_rx K has_errors s =
           s\<lparr>bus_seq := Suc (bus_seq s),
             trace := trace s @ [Log Dbg ''<mca_uart_handle_rx>'',
                                 BusRead MCA_REG_UART_RXLVL]\<rparr>"
  using assms
  by (simp add: mca_uart_handle_rx_def bus_eqs dev_dbg_def emit_eq Let_def rx_level_def)

lemma handle_rx_status_failed:
  assumes "r_ret (bus s (bus_seq s)) = 0" and "rx_level s \<noteq> 0"
    and "has_errors" and "r_ret (bus s (Suc (bus_seq s))) \<noteq> 0"
  shows "mca_uart_handle_rx K has_errors s =
           s\<lparr>bus_seq := Suc (Suc (bus_seq s)),
             trace := trace s @ [Log Dbg ''<mca_uart_handle_rx>'', BusRead MCA_REG_UART_RXLVL,
                                 BusRead MCA_REG_UART_LSR,
                                 Log Err ''Failed to read MCA_REG_UART_LSR'']\<rparr>"
  using assms
  by (simp add: mca_uart_handle_rx_def rx_read_errors_eq bus_eqs dev_dbg_def emit_eq Let_def
      rx_level_def)

lemma handle_rx_vector_failed:
  assumes "r_ret (bus s (bus_seq s)) = 0" and "rx_level s \<noteq> 0"
    and "has_errors" and "r_ret (bus s (Suc (bus_seq s))) = 0"
    and "r_val (bus s (Suc (bus_seq s))) \<noteq> 0"
    and "r_ret (bus s (Suc (Suc (bus_seq s)))) \<noteq> 0"
  shows "mca_uart_handle_rx K has_errors s =
           s\<lparr>bus_seq := Suc (Suc (Suc (bus_seq s))),
             trace := trace s @ [Log Dbg ''<mca_uart_handle_rx>'', BusRead MCA_REG_UART_RXLVL,
                                 BusRead MCA_REG_UART_LSR,
                                 BusBulkRead MCA_REG_UART_RX_ERRORS (rx_level s),
                                 Log Err ''Failed to read MCA_REG_UART_RX_ERRORS'']\<rparr>"
  using assms
  by (simp add: mca_uart_handle_rx_def rx_read_errors_eq bus_eqs dev_dbg_def emit_eq Let_def
      rx_level_def)

lemma handle_rx_vector_overflow:
  assumes "r_ret (bus s (bus_seq s)) = 0" and "rx_level s \<noteq> 0"
    and "has_errors" and "r_ret (bus s (Suc (bus_seq s))) = 0"
    and "r_val (bus s (Suc (bus_seq s))) \<noteq> 0"
    and "r_ret (bus s (Suc (Suc (bus_seq s)))) = 0"
    and "MCA_UART_RX_FIFO_SIZE < rx_level s"
  shows "mca_uart_handle_rx K has_errors s =
           s\<lparr>bus_seq := Suc (Suc (Suc (bus_seq s))), fault := True,
             trace := trace s @ [Log Dbg ''<mca_uart_handle_rx>'', BusRead MCA_REG_UART_RXLVL,
                                 BusRead MCA_REG_UART_LSR,
                                 BusBulkRead MCA_REG_UART_RX_ERRORS (rx_level s)]\<rparr>"
  using assms
  by (simp add: mca_uart_handle_rx_def rx_read_errors_eq bus_eqs dev_dbg_def emit_eq Let_def
      rx_level_def)

lemma handle_rx_reaches_data:
  assumes "r_ret (bus s (bus_seq s)) = 0" and "rx_level s \<noteq> 0"
    and "has_errors \<longrightarrow> r_ret (bus s (Suc (bus_seq s))) = 0"
    and "rx_error_vector has_errors s \<longrightarrow>
           r_ret (bus s (Suc (Suc (bus_seq s)))) = 0 \<and> \<not> MCA_UART_RX_FIFO_SIZE < rx_level s"
  shows "mca_uart_handle_rx K has_errors s =
           rx_read_data K (rx_error_vector has_errors s)
             (if rx_error_vector has_errors s
              then map (r_data (bus s (Suc (Suc (bus_seq s))))) [0..<unat (rx_level s)]
              else [])
             (rx_level s)
             (s\<lparr>bus_seq := rx_data_index has_errors s,
                trace := trace s @ rx_pre_events has_errors s\<rparr>)"
proof (cases has_errors)
  case False
  with assms(1,2) show ?thesis
    by (simp add: mca_uart_handle_rx_def rx_read_errors_eq bus_eqs dev_dbg_def emit_eq Let_def
        rx_level_def rx_error_vector_def rx_data_index_def rx_pre_events_def)
next
  case True
  show ?thesis
  proof (cases "r_val (bus s (Suc (bus_seq s))) = 0")
    case z: True
    with True assms show ?thesis
      by (simp add: mca_uart_handle_rx_def rx_read_errors_eq bus_eqs dev_dbg_def emit_eq
          Let_def rx_level_def rx_error_vector_def rx_data_index_def rx_pre_events_def)
  next
    case nz: False
    with True assms show ?thesis
      by (simp add: mca_uart_handle_rx_def rx_read_errors_eq bus_eqs dev_dbg_def emit_eq
          Let_def rx_level_def rx_error_vector_def rx_data_index_def rx_pre_events_def)
  qed
qed

lemma rx_read_data_last:
  assumes "\<not> ((r_ret (bus s (bus_seq s)) = 0 \<or> r_ret (bus s (Suc (bus_seq s))) = 0)
              \<and> MCA_UART_RX_FIFO_SIZE < rxlen)"
  shows "last (trace (rx_read_data K has_errors error_buf rxlen s)) = FlipPush"
proof (cases "r_ret (bus s (bus_seq s)) = 0")
  case True
  with assms show ?thesis
    by (simp add: rx_read_data_first_ok tty_flip_buffer_push_def emit_eq)
next
  case False
  show ?thesis
  proof (cases "r_ret (bus s (Suc (bus_seq s))) = 0")
    case True
    with False assms show ?thesis
      by (simp add: rx_read_data_retry_ok tty_flip_buffer_push_def emit_eq)
  next
    case f2: False
    with False show ?thesis
      by (simp add: rx_read_data_failed_twice)
  qed
qed

lemma rx_paths:
  obtains
    (level_failed) "r_ret (bus s (bus_seq s)) \<noteq> 0"
  | (nothing_queued) "r_ret (bus s (bus_seq s)) = 0" "rx_level s = 0"
  | (status_failed) "r_ret (bus s (bus_seq s)) = 0" "rx_level s \<noteq> 0" "has_errors"
      "r_ret (bus s (Suc (bus_seq s))) \<noteq> 0"
  | (vector_failed) "r_ret (bus s (bus_seq s)) = 0" "rx_level s \<noteq> 0" "has_errors"
      "r_ret (bus s (Suc (bus_seq s))) = 0" "r_val (bus s (Suc (bus_seq s))) \<noteq> 0"
      "r_ret (bus s (Suc (Suc (bus_seq s)))) \<noteq> 0"
  | (vector_overflow) "r_ret (bus s (bus_seq s)) = 0" "rx_level s \<noteq> 0" "has_errors"
      "r_ret (bus s (Suc (bus_seq s))) = 0" "r_val (bus s (Suc (bus_seq s))) \<noteq> 0"
      "r_ret (bus s (Suc (Suc (bus_seq s)))) = 0" "MCA_UART_RX_FIFO_SIZE < rx_level s"
  | (data) "r_ret (bus s (bus_seq s)) = 0" "rx_level s \<noteq> 0"
      "has_errors \<longrightarrow> r_ret (bus s (Suc (bus_seq s))) = 0"
      "rx_error_vector has_errors s \<longrightarrow>
         r_ret (bus s (Suc (Suc (bus_seq s)))) = 0 \<and> \<not> MCA_UART_RX_FIFO_SIZE < rx_level s"
  unfolding rx_error_vector_def by blast

lemma rx_end_of_data:
  assumes "r_ret (bus s (bus_seq s)) = 0" "rx_level s \<noteq> 0"
      "has_errors \<longrightarrow> r_ret (bus s (Suc (bus_seq s))) = 0"
      "rx_error_vector has_errors s \<longrightarrow>
         r_ret (bus s (Suc (Suc (bus_seq s)))) = 0 \<and> \<not> MCA_UART_RX_FIFO_SIZE < rx_level s"
  shows "rx_end_of has_errors s =
           (if r_ret (bus s (rx_data_index has_errors s)) \<noteq> 0
               \<and> r_ret (bus s (Suc (rx_data_index has_errors s))) \<noteq> 0
            then DataReadFailedTwice
            else if MCA_UART_RX_FIFO_SIZE < rx_level s then DataOverflow else Delivered)"
  using assms by (auto simp add: rx_end_of_def)

text \<open>
  C6, as amended. A run of the RX engine that gets as far as the bulk read of the data
  ends by notifying the sink of the batch boundary, exactly once and as its last act:
  when the batch is delivered, and also when the data read fails twice. A run that stops
  before the data read (failed level read, zero level, failed line-status read, failed
  bulk read of the error vector) returns without notifying the sink. (A run whose level
  exceeds the 128-byte buffers writes past them; nothing is stated for it.)
\<close>

theorem rx_flush:
  "flushes (mca_uart_handle_rx K has_errors s) =
     flushes s + (if rx_end_of has_errors s \<in> {DataReadFailedTwice, Delivered} then 1 else 0)
   \<and> (rx_end_of has_errors s \<in> {DataReadFailedTwice, Delivered} \<longrightarrow>
        last (trace (mca_uart_handle_rx K has_errors s)) = FlipPush)"
proof (rule rx_paths [where s = s and has_errors = has_errors], goal_cases)
  case level_failed: 1
  then show ?thesis
    by (simp add: handle_rx_level_failed rx_end_of_def flushes_def)
next
  case nothing_queued: 2
  then show ?thesis
    by (simp add: handle_rx_nothing_queued rx_end_of_def flushes_def)
next
  case status_failed: 3
  then show ?thesis
    by (simp add: handle_rx_status_failed rx_end_of_def flushes_def)
next
  case vector_failed: 4
  then show ?thesis
    by (simp add: handle_rx_vector_failed rx_end_of_def rx_error_vector_def flushes_def)
next
  case vector_overflow: 5
  then show ?thesis
    by (simp add: handle_rx_vector_overflow rx_end_of_def rx_error_vector_def flushes_def)
next
  case data: 6
  let ?s = "s\<lparr>bus_seq := rx_data_index has_errors s,
               trace := trace s @ rx_pre_events has_errors s\<rparr>"
  have f: "flushes ?s = flushes s"
    by (simp add: flushes_def rx_pre_events_def)
  show ?thesis
    using rx_read_data_last [of ?s "rx_level s" K]
    by (auto simp add: handle_rx_reaches_data [OF data] rx_end_of_data [OF data]
        rx_read_data_flushes f)
qed








subsection \<open>The RX engine: levels, flushes and counts\<close>

lemmas sample_rx_defs = rx_end_of_def rx_level_def rx_error_vector_def rx_data_index_def
  MCA_UART_RX_FIFO_SIZE_def idle_port_def scripted_def reply_val_def reply_bytes_def
  reply_fail_def reply_ok_def

text \<open>
  C2. A reported FIFO level above the capacity of the local buffer, 128, is treated as
  corrupt: logged and discarded, with no bulk read of more bytes than the buffer holds.
  The code has no such check in the RX engine (the TX engine has one for its headroom):
  with a level above 128 and no errors flagged it issues the bulk read of that many
  bytes into the 128-byte \<open>rx_buf\<close>, logs nothing, and the successful read overruns
  the buffer.
\<close>

theorem rx_overlong_level:
  assumes "r_ret (bus s (bus_seq s)) = 0" and "128 < rx_level s"
    and "r_ret (bus s (Suc (bus_seq s))) = 0"
  shows "mca_uart_handle_rx K False s =
           s\<lparr>bus_seq := Suc (Suc (bus_seq s)), fault := True,
             trace := trace s @ [Log Dbg ''<mca_uart_handle_rx>'', BusRead MCA_REG_UART_RXLVL,
                                 BusBulkRead MCA_REG_UART_RHR (rx_level s)]\<rparr>"
proof -
  have nz: "rx_level s \<noteq> 0"
    using assms(2) by auto
  have d: "False \<longrightarrow> r_ret (bus s (Suc (bus_seq s))) = 0"
    "rx_error_vector False s \<longrightarrow>
       r_ret (bus s (Suc (Suc (bus_seq s)))) = 0 \<and> \<not> MCA_UART_RX_FIFO_SIZE < rx_level s"
    by (simp_all add: rx_error_vector_def)
  show ?thesis
    using assms
    by (simp add: handle_rx_reaches_data [OF assms(1) nz d] rx_read_data_first_ok
        rx_data_index_def rx_error_vector_def rx_pre_events_def MCA_UART_RX_FIFO_SIZE_def)
qed

theorem rx_overlong_level_witness:
  "BusBulkRead MCA_REG_UART_RHR 200
     \<in> set (trace (mca_uart_handle_rx sample_hdr False
                     (idle_port [reply_val 200, reply_bytes []] 0 8)))
   \<and> fault (mca_uart_handle_rx sample_hdr False (idle_port [reply_val 200, reply_bytes []] 0 8))
   \<and> flip (mca_uart_handle_rx sample_hdr False (idle_port [reply_val 200, reply_bytes []] 0 8))
       = []"
proof -
  let ?s = "idle_port [reply_val 200, reply_bytes []] 0 8"
  have a: "r_ret (bus ?s (bus_seq ?s)) = 0" "128 < rx_level ?s"
    "r_ret (bus ?s (Suc (bus_seq ?s))) = 0"
    by (simp_all add: sample_rx_defs)
  have b: "rx_level ?s = 200" "flip ?s = []"
    by (simp_all add: sample_rx_defs)
  show ?thesis
    by (simp add: rx_overlong_level [OF a] b)
qed

theorem rx_flush_witness:
  "flushes (mca_uart_handle_rx sample_hdr False
              (idle_port [reply_val 3, reply_fail, reply_fail] 0 8)) = 1
   \<and> last (trace (mca_uart_handle_rx sample_hdr False
                     (idle_port [reply_val 3, reply_fail, reply_fail] 0 8))) = FlipPush
   \<and> flushes (mca_uart_handle_rx sample_hdr True
              (idle_port [reply_val 3, reply_val 1, reply_fail] 0 8)) = 0"
proof -
  have a: "rx_end_of False (idle_port [reply_val 3, reply_fail, reply_fail] 0 8)
             = DataReadFailedTwice"
    "rx_end_of True (idle_port [reply_val 3, reply_val 1, reply_fail] 0 8)
             = ErrorVectorReadFailed"
    by (simp_all add: sample_rx_defs)
  have b: "flushes (idle_port rs 0 8) = 0" for rs
    by (simp add: flushes_def idle_port_def)
  show ?thesis
    using rx_flush [of sample_hdr False "idle_port [reply_val 3, reply_fail, reply_fail] 0 8"]
      rx_flush [of sample_hdr True "idle_port [reply_val 3, reply_val 1, reply_fail] 0 8"]
    by (simp add: a b)
qed

text \<open>
  The claim C6 as stated fails for a run whose level read fails, and for a run whose
  bulk read of the error vector fails: neither notifies the sink.
\<close>

theorem rx_flush_counterexample:
  "r_ret (bus (idle_port [reply_fail] 0 8) (bus_seq (idle_port [reply_fail] 0 8))) \<noteq> 0
   \<and> FlipPush \<notin> set (trace (mca_uart_handle_rx sample_hdr False (idle_port [reply_fail] 0 8)))
   \<and> r_ret (bus (idle_port [reply_val 3, reply_val 1, reply_fail] 0 8) 2) \<noteq> 0
   \<and> FlipPush \<notin> set (trace (mca_uart_handle_rx sample_hdr True
                                (idle_port [reply_val 3, reply_val 1, reply_fail] 0 8)))"
proof -
  let ?a = "idle_port [reply_fail] 0 8"
  let ?b = "idle_port [reply_val 3, reply_val 1, reply_fail] 0 8"
  have a: "r_ret (bus ?a (bus_seq ?a)) \<noteq> 0" "trace ?a = []"
    by (simp_all add: sample_rx_defs)
  have b: "r_ret (bus ?b (bus_seq ?b)) = 0" "rx_level ?b \<noteq> 0" "True"
    "r_ret (bus ?b (Suc (bus_seq ?b))) = 0" "r_val (bus ?b (Suc (bus_seq ?b))) \<noteq> 0"
    "r_ret (bus ?b (Suc (Suc (bus_seq ?b)))) \<noteq> 0"
    by (simp_all add: sample_rx_defs)
  have c: "trace ?b = []" "r_ret (bus ?b 2) \<noteq> 0"
    by (simp_all add: sample_rx_defs)
  show ?thesis
    using a(1) c(2)
    by (simp add: handle_rx_level_failed [OF a(1)] handle_rx_vector_failed [OF b] a(2) c(1))
qed




end
